theory Spec2Isabelle
  imports Complex_Main "HOL-Library.Word"
begin

unbundle bit_operations_syntax

section \<open>Python values shared by the three services\<close>

text \<open>
  The three Flask services (\<^verbatim>\<open>vad-service/app.py\<close>, \<^verbatim>\<open>asr-service/app.py\<close>,
  \<^verbatim>\<open>tts-service/app.py\<close>) receive JSON or multipart requests and answer with an HTTP
  status and a body. A request body as \<^verbatim>\<open>request.get_json()\<close> returns it is a value
  of \<open>json\<close>: \<open>JNull\<close> is Python's \<^verbatim>\<open>None\<close>, \<open>JObj\<close> holds the items of a
  \<^verbatim>\<open>dict\<close> in insertion order (keys looked up from the front), \<open>JArr\<close> a
  \<^verbatim>\<open>list\<close>. JSON numbers with a fraction or an exponent (Python floats) are not part
  of this type. Each handler is given twice: from the value \<^verbatim>\<open>get_json\<close> returned
  (\<open>vad_detect\<close>, \<open>reset_vad\<close>, \<open>text_to_speech\<close>), and, for the VAD service, from
  the outcome of the call itself, which may raise (\<open>post_vad\<close>, \<open>post_reset\<close>).
\<close>

datatype json =
    JNull
  | JBool bool
  | JInt int
  | JStr string
  | JArr "json list"
  | JObj "(string \<times> json) list"

text \<open>An exception is its class name and the text \<^verbatim>\<open>str(e)\<close> gives.\<close>

datatype py_exception = PyExc string string

fun str_exc :: "py_exception \<Rightarrow> string" where
  "str_exc (PyExc cls msg) = msg"

type_synonym 'a result = "py_exception + 'a"

datatype content = Json json | FileStream string string

datatype http_response = Http nat content

fun status_of :: "http_response \<Rightarrow> nat" where
  "status_of (Http code c) = code"

fun content_of :: "http_response \<Rightarrow> content" where
  "content_of (Http code c) = c"

text \<open>\<^verbatim>\<open>jsonify(d)\<close> is a 200 response; \<^verbatim>\<open>jsonify(d), code\<close> carries the given status.\<close>

definition jsonify :: "(string \<times> json) list \<Rightarrow> http_response" where
  "jsonify d = Http 200 (Json (JObj d))"

definition jsonify_status :: "(string \<times> json) list \<Rightarrow> nat \<Rightarrow> http_response" where
  "jsonify_status d code = Http code (Json (JObj d))"

text \<open>
  The \<^verbatim>\<open>except Exception as e\<close> clause that closes every POST handler:
  \<^verbatim>\<open>return jsonify({"error": str(e)}), 500\<close>. The log line written before it has no
  effect on the response or on any state modelled here. Whatever state the handler body
  had reached when it raised is kept.
\<close>

definition except_handler :: "http_response result \<times> 'w \<Rightarrow> http_response \<times> 'w" where
  "except_handler r =
     (case fst r of
        Inr resp \<Rightarrow> (resp, snd r)
      | Inl e \<Rightarrow> (jsonify_status [(''error'', JStr (str_exc e))] 500, snd r))"

subsection \<open>Operators on parsed JSON\<close>

fun type_name :: "json \<Rightarrow> string" where
  "type_name JNull = ''NoneType''"
| "type_name (JBool b) = ''bool''"
| "type_name (JInt i) = ''int''"
| "type_name (JStr s) = ''str''"
| "type_name (JArr xs) = ''list''"
| "type_name (JObj kvs) = ''dict''"

definition quoted :: "string \<Rightarrow> string" where
  "quoted s = CHR 0x27 # s @ [CHR 0x27]"

fun str_contains :: "string \<Rightarrow> string \<Rightarrow> bool" where
  "str_contains k [] = (k = [])"
| "str_contains k (c # cs) = (take (length k) (c # cs) = k \<or> str_contains k cs)"

text \<open>
  \<^verbatim>\<open>key in data\<close>: key membership for a dict, element membership for a list, substring
  test for a string, and a \<^verbatim>\<open>TypeError\<close> for \<^verbatim>\<open>None\<close>, a bool or an int.
\<close>

fun py_contains :: "string \<Rightarrow> json \<Rightarrow> bool result" where
  "py_contains k (JObj kvs) = Inr (k \<in> set (map fst kvs))"
| "py_contains k (JArr xs) = Inr (JStr k \<in> set xs)"
| "py_contains k (JStr s) = Inr (str_contains k s)"
| "py_contains k v =
     Inl (PyExc ''TypeError''
       (''argument of type '' @ quoted (type_name v) @ '' is not iterable''))"

text \<open>\<^verbatim>\<open>data[key]\<close> with a string key.\<close>

fun py_getitem :: "json \<Rightarrow> string \<Rightarrow> json result" where
  "py_getitem (JObj kvs) k =
     (case map_of kvs k of
        Some v \<Rightarrow> Inr v
      | None \<Rightarrow> Inl (PyExc ''KeyError'' (quoted k)))"
| "py_getitem (JArr xs) k =
     Inl (PyExc ''TypeError'' ''list indices must be integers or slices, not str'')"
| "py_getitem (JStr s) k = Inl (PyExc ''TypeError'' ''string indices must be integers'')"
| "py_getitem v k =
     Inl (PyExc ''TypeError'' (quoted (type_name v) @ '' object is not subscriptable''))"

text \<open>\<^verbatim>\<open>data.get(key, default)\<close>: only a dict has the method.\<close>

fun py_get :: "json \<Rightarrow> string \<Rightarrow> json \<Rightarrow> json result" where
  "py_get (JObj kvs) k dflt =
     (case map_of kvs k of
        Some v \<Rightarrow> Inr v
      | None \<Rightarrow> Inr dflt)"
| "py_get v k dflt =
     Inl (PyExc ''AttributeError''
       (quoted (type_name v) @ '' object has no attribute '' @ quoted ''get''))"

text \<open>Truth value of a parsed body, as \<^verbatim>\<open>request.get_json() or {}\<close> tests it.\<close>

fun py_truthy :: "json \<Rightarrow> bool" where
  "py_truthy JNull = False"
| "py_truthy (JBool b) = b"
| "py_truthy (JInt i) = (i \<noteq> 0)"
| "py_truthy (JStr s) = (s \<noteq> [])"
| "py_truthy (JArr xs) = (xs \<noteq> [])"
| "py_truthy (JObj kvs) = (kvs \<noteq> [])"

text \<open>
  A key of the session dictionary. Lists and dicts are unhashable; \<^verbatim>\<open>True\<close> and
  \<^verbatim>\<open>False\<close> hash and compare as the integers 1 and 0.
\<close>

datatype skey = KNone | KInt int | KStr string

fun py_hashable :: "json \<Rightarrow> skey result" where
  "py_hashable JNull = Inr KNone"
| "py_hashable (JBool b) = Inr (KInt (if b then 1 else 0))"
| "py_hashable (JInt i) = Inr (KInt i)"
| "py_hashable (JStr s) = Inr (KStr s)"
| "py_hashable v = Inl (PyExc ''TypeError'' (''unhashable type: '' @ quoted (type_name v)))"

text \<open>\<^verbatim>\<open>d[k] = v\<close> on a dict held as its items: replace in place, or append a new key.\<close>

fun dict_set :: "'k \<Rightarrow> 'v \<Rightarrow> ('k \<times> 'v) list \<Rightarrow> ('k \<times> 'v) list" where
  "dict_set k v [] = [(k, v)]"
| "dict_set k v (p # ps) = (if fst p = k then (k, v) # ps else p # dict_set k v ps)"

section \<open>VAD service\<close>

subsection \<open>The detector object\<close>

text \<open>
  \<^verbatim>\<open>VADIterator\<close> is imported from the \<^verbatim>\<open>silero_vad\<close> package and none of its code
  is among the repository's files. Everything in this subsection is therefore written from
  the specification: the Session of its data model (section 3) and the operations
  \<^verbatim>\<open>process\<close> and \<^verbatim>\<open>reset\<close> of its section 4.1.
\<close>

datatype phase = SILENCE | SPEECH

text \<open>
  Modelled from the spec: the Session record without its key, which the handlers keep in
  the session dictionary. The first three fields are the configuration, the last three the
  state. Durations are counted in samples.
\<close>

record vad_iterator =
  threshold :: real
  sampling_rate :: nat
  min_silence_duration_ms :: nat
  phase :: phase
  silence_run_length :: nat
  sample_cursor :: nat

text \<open>
  Modelled from the spec: the constructor \<^verbatim>\<open>VADIterator(model, threshold, sampling_rate,
  min_silence_duration_ms)\<close>; a new Session is in its initial state (phase SILENCE, silence
  run 0, cursor 0).
\<close>

definition VADIterator :: "real \<Rightarrow> nat \<Rightarrow> nat \<Rightarrow> vad_iterator" where
  "VADIterator thr rate ms =
     \<lparr>threshold = thr, sampling_rate = rate, min_silence_duration_ms = ms,
      phase = SILENCE, silence_run_length = 0, sample_cursor = 0\<rparr>"

text \<open>
  Modelled from the spec: the detector's \<^verbatim>\<open>reset_states()\<close>, which ``clears the named
  session back to its initial state (phase = SILENCE, silence_run_length = 0, cursor = 0)
  without deleting its configured thresholds''.
\<close>

definition reset_states :: "vad_iterator \<Rightarrow> vad_iterator" where
  "reset_states it = it\<lparr>phase := SILENCE, silence_run_length := 0, sample_cursor := 0\<rparr>"

text \<open>
  The frame-level scorer is the loaded model, an external collaborator: \<open>score n chunk\<close>
  is what its \<open>n\<close>-th invocation answers on \<open>chunk\<close>, a probability or an exception.
  The detector's output is \<^verbatim>\<open>None\<close>, \<^verbatim>\<open>{'start': t}\<close> or \<^verbatim>\<open>{'end': t}\<close>.
\<close>

type_synonym scorer = "nat \<Rightarrow> real list \<Rightarrow> real result"

type_synonym vad_output = "(string \<times> nat) list option"

text \<open>
  Modelled from the spec: the hysteresis rule of section 4.1 for a chunk of \<open>n\<close> samples
  scored \<open>p\<close>, its four cases in the spec's order of phases, followed by the advance of the
  cursor. The silence run has reached the minimum when
  \<open>run * 1000 \<ge> min_silence_duration_ms * sampling_rate\<close>. A start event carries the
  cursor at which the chunk begins; an end event carries the cursor after the chunk minus
  the accumulated run (natural-number subtraction), the sample at which the silence run
  began. The spec leaves the unit and this convention open (its section 9) and no theorem
  below depends on the timestamps.
\<close>

definition hysteresis :: "vad_iterator \<Rightarrow> real \<Rightarrow> nat \<Rightarrow> vad_output \<times> vad_iterator" where
  "hysteresis it p n =
     (if phase it = SILENCE then
        (if threshold it \<le> p then
           (Some [(''start'', sample_cursor it)],
            it\<lparr>phase := SPEECH, silence_run_length := 0,
               sample_cursor := sample_cursor it + n\<rparr>)
         else (None, it\<lparr>sample_cursor := sample_cursor it + n\<rparr>))
      else
        (if threshold it \<le> p then
           (None, it\<lparr>silence_run_length := 0, sample_cursor := sample_cursor it + n\<rparr>)
         else
           (let run = silence_run_length it + n in
            if run * 1000 < min_silence_duration_ms it * sampling_rate it then
              (None, it\<lparr>silence_run_length := run, sample_cursor := sample_cursor it + n\<rparr>)
            else
              (Some [(''end'', sample_cursor it + n - run)],
               it\<lparr>phase := SILENCE, silence_run_length := run,
                  sample_cursor := sample_cursor it + n\<rparr>))))"

text \<open>
  Modelled from the spec: the detector's \<^verbatim>\<open>__call__\<close>, the part of \<^verbatim>\<open>process\<close> after
  the Session has been resolved. It returns the output, the detector after the call and
  the number of scorer invocations so far. An empty chunk fails with
  \<^verbatim>\<open>InvalidAudioError\<close> before the scorer is reached; a scorer failure is propagated,
  not retried, and leaves phase, silence run and cursor as they were (sections 4.1 and 7).
\<close>

definition vad_call ::
  "scorer \<Rightarrow> nat \<Rightarrow> vad_iterator \<Rightarrow> real list \<Rightarrow> vad_output result \<times> vad_iterator \<times> nat" where
  "vad_call score calls it chunk =
     (if chunk = [] then (Inl (PyExc ''InvalidAudioError'' ''empty audio chunk''), it, calls)
      else
        (case score calls chunk of
           Inl e \<Rightarrow> (Inl e, it, Suc calls)
         | Inr p \<Rightarrow>
             (case hysteresis it p (length chunk) of
                (out, it') \<Rightarrow> (Inr out, it', Suc calls))))"

subsection \<open>Module state and helpers of \<^verbatim>\<open>vad-service/app.py\<close>\<close>

definition SAMPLING_RATE :: nat where
  "SAMPLING_RATE = 16000"

definition THRESHOLD :: real where
  "THRESHOLD = 5 / 10"

definition MIN_SILENCE_DURATION_MS :: nat where
  "MIN_SILENCE_DURATION_MS = 500"

text \<open>
  The module-level dict \<^verbatim>\<open>vad_iterators\<close> together with the number of times the loaded
  model has been invoked. The dict is kept as its items, so that holding at most one
  detector per key is a property to prove and not one of the type.
\<close>

record vad_world =
  vad_iterators :: "(skey \<times> vad_iterator) list"
  scorer_calls :: nat

definition initial_world :: vad_world where
  "initial_world = \<lparr>vad_iterators = [], scorer_calls = 0\<rparr>"

text \<open>
  \<^verbatim>\<open>get_vad_iterator(session_id)\<close>: the membership test hashes the id (and raises on an
  unhashable one); an unknown id gets a detector built from the three module constants.
  The function returns the detector object held by the dict; here it returns the key, the
  detector found or stored under it, and the dict after the call.
\<close>

definition get_vad_iterator ::
  "json \<Rightarrow> (skey \<times> vad_iterator) list
     \<Rightarrow> (skey \<times> vad_iterator \<times> (skey \<times> vad_iterator) list) result" where
  "get_vad_iterator session_id its =
     (case py_hashable session_id of
        Inl e \<Rightarrow> Inl e
      | Inr k \<Rightarrow>
          (case map_of its k of
             None \<Rightarrow>
               (let it = VADIterator THRESHOLD SAMPLING_RATE MIN_SILENCE_DURATION_MS
                in Inr (k, it, dict_set k it its))
           | Some it \<Rightarrow> Inr (k, it, its)))"

text \<open>
  \<^verbatim>\<open>int2float\<close>: \<^verbatim>\<open>sound.astype(np.float32) / 32768.0\<close>. Every 16-bit integer is a
  float32 value and 32768 is a power of two, so the float32 quotient is the exact
  quotient; the samples are therefore real numbers here.
\<close>

definition int2float :: "16 word list \<Rightarrow> real list" where
  "int2float sound = map (\<lambda>s. real_of_int (sint s) / 32768) sound"

text \<open>
  \<^verbatim>\<open>np.frombuffer(audio_bytes, dtype=np.int16)\<close>: pairs of bytes, low byte first; a
  buffer of odd length is a \<^verbatim>\<open>ValueError\<close>.
\<close>

fun le16_pairs :: "8 word list \<Rightarrow> 16 word list" where
  "le16_pairs (lo # hi # bs) = (push_bit 8 (ucast hi) OR ucast lo) # le16_pairs bs"
| "le16_pairs bs = []"

definition frombuffer_int16 :: "8 word list \<Rightarrow> 16 word list result" where
  "frombuffer_int16 bs =
     (if odd (length bs) then
        Inl (PyExc ''ValueError'' ''buffer size must be a multiple of element size'')
      else Inr (le16_pairs bs))"

subsection \<open>The handlers of \<^verbatim>\<open>vad-service/app.py\<close>\<close>

text \<open>
  What the service calls from outside the repository: \<^verbatim>\<open>base64.b64decode\<close>, applied to
  whatever JSON value the field holds, and the loaded model, invoked by the detector.
\<close>

record vad_env =
  b64decode :: "json \<Rightarrow> 8 word list result"
  vad_model :: scorer

text \<open>The message of the 400 response, \<^verbatim>\<open>\u7f3a\u5c11audio_data\u5b57\u6bb5\<close>, as UTF-8 bytes.\<close>

definition MSG_NO_AUDIO_DATA :: string where
  "MSG_NO_AUDIO_DATA =
     [CHR 0xE7, CHR 0xBC, CHR 0xBA, CHR 0xE5, CHR 0xB0, CHR 0x91] @ ''audio_data'' @
     [CHR 0xE5, CHR 0xAD, CHR 0x97, CHR 0xE6, CHR 0xAE, CHR 0xB5]"

text \<open>Lines 52 to 54 of \<^verbatim>\<open>vad_detect\<close>: field, base64, int16 samples, floats.\<close>

definition decode_audio :: "vad_env \<Rightarrow> json \<Rightarrow> real list result" where
  "decode_audio env data =
     (case py_getitem data ''audio_data'' of
        Inl e \<Rightarrow> Inl e
      | Inr field \<Rightarrow>
          (case b64decode env field of
             Inl e \<Rightarrow> Inl e
           | Inr audio_bytes \<Rightarrow>
               (case frombuffer_int16 audio_bytes of
                  Inl e \<Rightarrow> Inl e
                | Inr audio_int16 \<Rightarrow> Inr (int2float audio_int16))))"

text \<open>Lines 61 to 67: the response built from the detector's output.\<close>

definition vad_respond :: "vad_output \<Rightarrow> http_response" where
  "vad_respond vad_output =
     (case vad_output of
        None \<Rightarrow> jsonify [(''status'', JNull)]
      | Some d \<Rightarrow>
          (case map_of d ''start'' of
             Some t \<Rightarrow> jsonify [(''status'', JStr ''start''), (''timestamp'', JInt (int t))]
           | None \<Rightarrow>
               (case map_of d ''end'' of
                  Some t \<Rightarrow> jsonify [(''status'', JStr ''end''), (''timestamp'', JInt (int t))]
                | None \<Rightarrow> jsonify [(''status'', JNull)])))"

text \<open>Lines 56 to 67: session lookup or creation, the detector call, the response.\<close>

definition vad_session_step ::
  "vad_env \<Rightarrow> vad_world \<Rightarrow> json \<Rightarrow> real list \<Rightarrow> http_response result \<times> vad_world" where
  "vad_session_step env w data audio_float32 =
     (case py_get data ''session_id'' (JStr ''default'') of
        Inl e \<Rightarrow> (Inl e, w)
      | Inr session_id \<Rightarrow>
          (case get_vad_iterator session_id (vad_iterators w) of
             Inl e \<Rightarrow> (Inl e, w)
           | Inr (k, it, its) \<Rightarrow>
               (case vad_call (vad_model env) (scorer_calls w) it audio_float32 of
                  (out, it', calls) \<Rightarrow>
                    ((case out of
                        Inl e \<Rightarrow> Inl e
                      | Inr vad_output \<Rightarrow> Inr (vad_respond vad_output)),
                     \<lparr>vad_iterators = dict_set k it' its, scorer_calls = calls\<rparr>))))"

definition vad_detect_body ::
  "vad_env \<Rightarrow> vad_world \<Rightarrow> json \<Rightarrow> http_response result \<times> vad_world" where
  "vad_detect_body env w data =
     (case py_contains ''audio_data'' data of
        Inl e \<Rightarrow> (Inl e, w)
      | Inr present \<Rightarrow>
          (if \<not> present then (Inr (jsonify_status [(''error'', JStr MSG_NO_AUDIO_DATA)] 400), w)
           else
             (case decode_audio env data of
                Inl e \<Rightarrow> (Inl e, w)
              | Inr audio_float32 \<Rightarrow> vad_session_step env w data audio_float32)))"

definition vad_detect :: "vad_env \<Rightarrow> vad_world \<Rightarrow> json \<Rightarrow> http_response \<times> vad_world" where
  "vad_detect env w data = except_handler (vad_detect_body env w data)"

text \<open>\<^verbatim>\<open>reset_vad\<close>: a falsy body counts as \<^verbatim>\<open>{}\<close>; only a session that exists is reset.\<close>

definition reset_vad_body :: "vad_world \<Rightarrow> json \<Rightarrow> http_response result \<times> vad_world" where
  "reset_vad_body w body =
     (let data = (if py_truthy body then body else JObj []) in
      case py_get data ''session_id'' (JStr ''default'') of
        Inl e \<Rightarrow> (Inl e, w)
      | Inr session_id \<Rightarrow>
          (case py_hashable session_id of
             Inl e \<Rightarrow> (Inl e, w)
           | Inr k \<Rightarrow>
               (case map_of (vad_iterators w) k of
                  Some it \<Rightarrow>
                    (Inr (jsonify [(''status'', JStr ''reset'')]),
                     w\<lparr>vad_iterators := dict_set k (reset_states it) (vad_iterators w)\<rparr>)
                | None \<Rightarrow> (Inr (jsonify [(''status'', JStr ''reset'')]), w))))"

definition reset_vad :: "vad_world \<Rightarrow> json \<Rightarrow> http_response \<times> vad_world" where
  "reset_vad w body = except_handler (reset_vad_body w body)"

subsection \<open>The call of \<^verbatim>\<open>request.get_json()\<close>\<close>

text \<open>
  \<^verbatim>\<open>request.get_json()\<close> is the first statement inside the \<^verbatim>\<open>try\<close> block of
  \<^verbatim>\<open>vad_detect\<close> (line 47) and of \<^verbatim>\<open>reset_vad\<close> (line 76), and it is the framework's.
  Its outcome is the parsed value or an exception, and an exception reaches the same
  \<^verbatim>\<open>except\<close> clause as any other. \<open>post_vad\<close> and \<open>post_reset\<close> are the two handlers
  from that outcome on.
\<close>

definition post_vad :: "vad_env \<Rightarrow> vad_world \<Rightarrow> json result \<Rightarrow> http_response \<times> vad_world" where
  "post_vad env w got =
     except_handler
       (case got of
          Inl e \<Rightarrow> (Inl e, w)
        | Inr data \<Rightarrow> vad_detect_body env w data)"

definition post_reset :: "vad_world \<Rightarrow> json result \<Rightarrow> http_response \<times> vad_world" where
  "post_reset w got =
     except_handler
       (case got of
          Inl e \<Rightarrow> (Inl e, w)
        | Inr body \<Rightarrow> reset_vad_body w body)"

text \<open>
  What the client sent, and Flask's \<^verbatim>\<open>get_json\<close> with its default arguments on it: a
  JSON body is parsed to its value, the body \<^verbatim>\<open>null\<close> to \<^verbatim>\<open>None\<close>; a request without
  a body is refused with 415 Unsupported Media Type (Flask 2.1 and later; before that
  version the call returned \<^verbatim>\<open>None\<close> there, which is the outcome \<open>Inr JNull\<close>).
\<close>

datatype request_body = NoBody | JsonBody json

definition MSG_NOT_JSON :: string where
  "MSG_NOT_JSON =
     ''415 Unsupported Media Type: Did not attempt to load JSON data because the request '' @
     ''Content-Type was not '' @ quoted ''application/json'' @ ''.''"

fun flask_get_json :: "request_body \<Rightarrow> json result" where
  "flask_get_json NoBody = Inl (PyExc ''UnsupportedMediaType'' MSG_NOT_JSON)"
| "flask_get_json (JsonBody v) = Inr v"

subsection \<open>Request sequences and what a client observes\<close>

datatype request = PostVad json | PostReset json

fun handle_request :: "vad_env \<Rightarrow> vad_world \<Rightarrow> request \<Rightarrow> http_response \<times> vad_world" where
  "handle_request env w (PostVad body) = vad_detect env w body"
| "handle_request env w (PostReset body) = reset_vad w body"

fun run_requests :: "vad_env \<Rightarrow> vad_world \<Rightarrow> request list \<Rightarrow> vad_world" where
  "run_requests env w [] = w"
| "run_requests env w (r # rs) = run_requests env (snd (handle_request env w r)) rs"

text \<open>The bodies of a sequence of POST /vad calls, each paired with its response.\<close>

fun vad_responses ::
  "vad_env \<Rightarrow> vad_world \<Rightarrow> json list \<Rightarrow> (json \<times> http_response) list" where
  "vad_responses env w [] = []"
| "vad_responses env w (d # ds) =
     (d, fst (vad_detect env w d)) # vad_responses env (snd (vad_detect env w d)) ds"

text \<open>
  An event is a 200 response whose \<^verbatim>\<open>status\<close> is \<^verbatim>\<open>"start"\<close> or \<^verbatim>\<open>"end"\<close>; a null
  status and an error response are no event.
\<close>

datatype event = Start | End

fun event_of :: "http_response \<Rightarrow> event option" where
  "event_of (Http code (Json (JObj kvs))) =
     (if code = 200 \<and> map_of kvs ''status'' = Some (JStr ''start'') then Some Start
      else if code = 200 \<and> map_of kvs ''status'' = Some (JStr ''end'') then Some End
      else None)"
| "event_of r = None"

text \<open>The session a body addresses: its \<^verbatim>\<open>session_id\<close>, or \<^verbatim>\<open>'default'\<close>, as a key.\<close>

definition addressed_session :: "json \<Rightarrow> skey option" where
  "addressed_session data =
     (case py_get data ''session_id'' (JStr ''default'') of
        Inl e \<Rightarrow> None
      | Inr session_id \<Rightarrow>
          (case py_hashable session_id of
             Inl e \<Rightarrow> None
           | Inr k \<Rightarrow> Some k))"

fun session_events :: "skey \<Rightarrow> (json \<times> http_response) list \<Rightarrow> event list" where
  "session_events k [] = []"
| "session_events k (dr # rest) =
     (if addressed_session (fst dr) = Some k then
        (case event_of (snd dr) of
           Some e \<Rightarrow> e # session_events k rest
         | None \<Rightarrow> session_events k rest)
      else session_events k rest)"

text \<open>
  \<open>alternating ph es\<close>: the events alternate, beginning with a start when \<open>ph\<close> is
  \<open>SILENCE\<close> and with an end when it is \<open>SPEECH\<close>.
\<close>

fun alternating :: "phase \<Rightarrow> event list \<Rightarrow> bool" where
  "alternating ph [] = True"
| "alternating SILENCE (Start # es) = alternating SPEECH es"
| "alternating SPEECH (End # es) = alternating SILENCE es"
| "alternating ph (e # es) = False"

text \<open>
  The state a session id stands for: the detector stored under it, or the detector a first
  reference would build.
\<close>

definition session_view :: "vad_world \<Rightarrow> skey \<Rightarrow> vad_iterator" where
  "session_view w k =
     (case map_of (vad_iterators w) k of
        None \<Rightarrow> VADIterator THRESHOLD SAMPLING_RATE MIN_SILENCE_DURATION_MS
      | Some it \<Rightarrow> it)"

subsection \<open>The standard library's base64 decoder\<close>

text \<open>
  \<^verbatim>\<open>base64.b64decode(s)\<close> with its default \<^verbatim>\<open>validate=False\<close>, used below to give the
  parameter \<open>b64decode\<close> a value in concrete requests. A string must be ASCII and goes to
  \<^verbatim>\<open>binascii.a2b_base64\<close>, which skips characters outside the alphabet, stops at a
  complete padding and raises \<^verbatim>\<open>binascii.Error\<close> when the data characters do not fill
  their last group; any other JSON value is a \<^verbatim>\<open>TypeError\<close>.
\<close>

definition b64_digit :: "char \<Rightarrow> nat option" where
  "b64_digit c =
     (let n = (of_char c :: nat) in
      if 65 \<le> n \<and> n \<le> 90 then Some (n - 65)
      else if 97 \<le> n \<and> n \<le> 122 then Some (n - 71)
      else if 48 \<le> n \<and> n \<le> 57 then Some (n + 4)
      else if n = 43 then Some 62
      else if n = 47 then Some 63
      else None)"

fun show_nat :: "nat \<Rightarrow> string" where
  "show_nat n =
     (if n < 10 then [char_of (48 + n)]
      else show_nat (n div 10) @ [char_of (48 + n mod 10)])"

fun a2b_base64 :: "nat \<Rightarrow> nat \<Rightarrow> nat \<Rightarrow> 8 word list \<Rightarrow> string \<Rightarrow> 8 word list result" where
  "a2b_base64 quad_pos leftchar pads out [] =
     (if quad_pos = 0 then Inr out
      else if quad_pos = 1 then
        Inl (PyExc ''binascii.Error''
          (''Invalid base64-encoded string: number of data characters ('' @
           show_nat (length out div 3 * 4 + 1) @
           '') cannot be 1 more than a multiple of 4''))
      else Inl (PyExc ''binascii.Error'' ''Incorrect padding''))"
| "a2b_base64 quad_pos leftchar pads out (c # cs) =
     (if c = CHR ''='' then
        (if 2 \<le> quad_pos \<and> 4 \<le> quad_pos + (pads + 1) then Inr out
         else a2b_base64 quad_pos leftchar (if 2 \<le> quad_pos then pads + 1 else pads) out cs)
      else
        (case b64_digit c of
           None \<Rightarrow> a2b_base64 quad_pos leftchar pads out cs
         | Some v \<Rightarrow>
             (if quad_pos = 0 then a2b_base64 1 v 0 out cs
              else if quad_pos = 1 then
                a2b_base64 2 (v mod 16) 0 (out @ [of_nat (leftchar * 4 + v div 16)]) cs
              else if quad_pos = 2 then
                a2b_base64 3 (v mod 4) 0 (out @ [of_nat (leftchar * 16 + v div 4)]) cs
              else a2b_base64 0 0 0 (out @ [of_nat (leftchar * 64 + v)]) cs)))"

fun base64_b64decode :: "json \<Rightarrow> 8 word list result" where
  "base64_b64decode (JStr s) =
     (if list_ex (\<lambda>c. 128 \<le> (of_char c :: nat)) s then
        Inl (PyExc ''ValueError'' ''string argument should contain only ASCII characters'')
      else a2b_base64 0 0 0 [] s)"
| "base64_b64decode v =
     Inl (PyExc ''TypeError''
       (''argument should be a bytes-like object or ASCII string, not '' @
        quoted (type_name v)))"

text \<open>Two environments for concrete requests: a model that hears speech, and one that fails.\<close>

definition speech_env :: vad_env where
  "speech_env = \<lparr>b64decode = base64_b64decode, vad_model = (\<lambda>n chunk. Inr (8 / 10))\<rparr>"

definition failing_env :: vad_env where
  "failing_env =
     \<lparr>b64decode = base64_b64decode,
      vad_model = (\<lambda>n chunk. Inl (PyExc ''RuntimeError'' ''model not ready''))\<rparr>"

text \<open>
  A model that hears silence, and a world whose default session is two samples short of
  the minimum silence duration.
\<close>

definition quiet_env :: vad_env where
  "quiet_env = \<lparr>b64decode = base64_b64decode, vad_model = (\<lambda>n chunk. Inr (1 / 10))\<rparr>"

definition pausing_world :: vad_world where
  "pausing_world =
     \<lparr>vad_iterators =
        [(KStr ''default'',
          \<lparr>threshold = 5 / 10, sampling_rate = 16000, min_silence_duration_ms = 500,
           phase = SPEECH, silence_run_length = 7998, sample_cursor = 16000\<rparr>)],
      scorer_calls = 40\<rparr>"

text \<open>The configuration every detector of this service is built with.\<close>

definition fixed_configuration :: "vad_iterator \<Rightarrow> bool" where
  "fixed_configuration it \<longleftrightarrow>
     threshold it = 5 / 10 \<and> sampling_rate it = 16000 \<and> min_silence_duration_ms it = 500"

text \<open>
  A world in which the default session is in the middle of an utterance, and a request
  body whose payload is the base64 text of the two samples 32767 and -32768.
\<close>

definition speaking_world :: vad_world where
  "speaking_world =
     \<lparr>vad_iterators =
        [(KStr ''default'',
          \<lparr>threshold = 5 / 10, sampling_rate = 16000, min_silence_duration_ms = 500,
           phase = SPEECH, silence_run_length = 0, sample_cursor = 512\<rparr>)],
      scorer_calls = 1\<rparr>"

definition two_samples :: json where
  "two_samples = JObj [(''audio_data'', JStr ''/38AgA=='')]"

section \<open>Temporary files\<close>

text \<open>
  Both other services stage audio in a file under the temporary directory. The file
  system is the set of paths that exist. \<^verbatim>\<open>os.remove\<close> raises when the path does not
  exist or when the system refuses the deletion, which \<open>refused\<close> stands for.
\<close>

type_synonym fs = "string set"

definition os_path_join :: "string \<Rightarrow> string \<Rightarrow> string" where
  "os_path_join dir name =
     (if dir = [] \<or> last dir = CHR ''/'' then dir @ name else dir @ ''/'' @ name)"

definition os_remove :: "(string \<Rightarrow> bool) \<Rightarrow> fs \<Rightarrow> string \<Rightarrow> unit result \<times> fs" where
  "os_remove refused files path =
     (if path \<notin> files then
        (Inl (PyExc ''FileNotFoundError'' (''No such file or directory: '' @ quoted path)), files)
      else if refused path then
        (Inl (PyExc ''PermissionError'' (''Permission denied: '' @ quoted path)), files)
      else (Inr (), files - {path}))"

text \<open>\<^verbatim>\<open>try: os.remove(path)\<close> \<^verbatim>\<open>except: pass\<close> keeps only the effect on the files.\<close>

definition remove_suppressed :: "(string \<Rightarrow> bool) \<Rightarrow> fs \<Rightarrow> string \<Rightarrow> fs" where
  "remove_suppressed refused files path = snd (os_remove refused files path)"

section \<open>ASR service\<close>

text \<open>
  \<^verbatim>\<open>asr-service/app.py\<close>. The request is its \<^verbatim>\<open>request.files\<close>; the environment holds
  what comes from outside the repository: the temporary directory, the hex digits of the
  fresh UUID, \<^verbatim>\<open>file.save\<close>, \<^verbatim>\<open>model.generate\<close> (a list of dicts or an exception),
  \<^verbatim>\<open>rich_transcription_postprocess\<close> and the deletions the system refuses. A save that
  raises is taken to leave no file behind.
\<close>

record upload =
  filename :: string
  payload :: "8 word list"

record asr_env =
  asr_tempdir :: string
  asr_uuid_hex :: string
  file_save :: "upload \<Rightarrow> string \<Rightarrow> unit result"
  model_generate :: "string \<Rightarrow> (string \<times> json) list list result"
  rich_transcription_postprocess :: "json \<Rightarrow> string result"
  asr_remove_refused :: "string \<Rightarrow> bool"

text \<open>
  The two 400 messages, \<^verbatim>\<open>\u6ca1\u6709\u4e0a\u4f20\u6587\u4ef6\<close> and
  \<^verbatim>\<open>\u6587\u4ef6\u540d\u4e3a\u7a7a\<close>, as UTF-8 bytes.
\<close>

definition MSG_NO_FILE :: string where
  "MSG_NO_FILE =
     [CHR 0xE6, CHR 0xB2, CHR 0xA1, CHR 0xE6, CHR 0x9C, CHR 0x89, CHR 0xE4, CHR 0xB8, CHR 0x8A,
      CHR 0xE4, CHR 0xBC, CHR 0xA0, CHR 0xE6, CHR 0x96, CHR 0x87, CHR 0xE4, CHR 0xBB, CHR 0xB6]"

definition MSG_EMPTY_FILENAME :: string where
  "MSG_EMPTY_FILENAME =
     [CHR 0xE6, CHR 0x96, CHR 0x87, CHR 0xE4, CHR 0xBB, CHR 0xB6, CHR 0xE5, CHR 0x90, CHR 0x8D,
      CHR 0xE4, CHR 0xB8, CHR 0xBA, CHR 0xE7, CHR 0xA9, CHR 0xBA]"

definition asr_temp_file :: "asr_env \<Rightarrow> string" where
  "asr_temp_file env = os_path_join (asr_tempdir env) (''asr_'' @ asr_uuid_hex env @ ''.wav'')"

text \<open>Lines 49 to 69 of \<^verbatim>\<open>recognize\<close>: the model call, the deletion, the response.\<close>

definition transcribe :: "asr_env \<Rightarrow> fs \<Rightarrow> string \<Rightarrow> http_response result \<times> fs" where
  "transcribe env files temp_file =
     (case model_generate env temp_file of
        Inl e \<Rightarrow> (Inl e, files)
      | Inr res \<Rightarrow>
          (case res of
             [] \<Rightarrow> (Inl (PyExc ''IndexError'' ''list index out of range''), files)
           | first # others \<Rightarrow>
               (case map_of first ''text'' of
                  None \<Rightarrow> (Inl (PyExc ''KeyError'' (quoted ''text'')), files)
                | Some raw \<Rightarrow>
                    (case rich_transcription_postprocess env raw of
                       Inl e \<Rightarrow> (Inl e, files)
                     | Inr text \<Rightarrow>
                         (Inr (jsonify
                            [(''text'', JStr text),
                             (''language'',
                              (case map_of first ''language'' of
                                 Some l \<Rightarrow> l
                               | None \<Rightarrow> JStr ''unknown''))]),
                          remove_suppressed (asr_remove_refused env) files temp_file)))))"

definition recognize_body ::
  "asr_env \<Rightarrow> fs \<Rightarrow> (string \<times> upload) list \<Rightarrow> http_response result \<times> fs" where
  "recognize_body env files request_files =
     (case map_of request_files ''file'' of
        None \<Rightarrow> (Inr (jsonify_status [(''error'', JStr MSG_NO_FILE)] 400), files)
      | Some file \<Rightarrow>
          (if filename file = [] then
             (Inr (jsonify_status [(''error'', JStr MSG_EMPTY_FILENAME)] 400), files)
           else
             (let temp_file = asr_temp_file env in
              case file_save env file temp_file of
                Inl e \<Rightarrow> (Inl e, files)
              | Inr u \<Rightarrow> transcribe env (insert temp_file files) temp_file)))"

definition recognize :: "asr_env \<Rightarrow> fs \<Rightarrow> (string \<times> upload) list \<Rightarrow> http_response \<times> fs" where
  "recognize env files request_files = except_handler (recognize_body env files request_files)"

text \<open>An upload and an environment whose model raises, for a concrete request.\<close>

definition wav_upload :: upload where
  "wav_upload = \<lparr>filename = ''a.wav'', payload = [0x52, 0x49, 0x46, 0x46]\<rparr>"

definition model_failure_env :: asr_env where
  "model_failure_env =
     \<lparr>asr_tempdir = ''/tmp'', asr_uuid_hex = ''0123456789abcdef0123456789abcdef'',
      file_save = (\<lambda>file path. Inr ()),
      model_generate = (\<lambda>path. Inl (PyExc ''RuntimeError'' ''inference failed'')),
      rich_transcription_postprocess = (\<lambda>raw. Inr []),
      asr_remove_refused = (\<lambda>path. False)\<rparr>"

section \<open>TTS service\<close>

text \<open>
  \<^verbatim>\<open>tts-service/app.py\<close>. From outside the repository: the default voice, the
  temporary directory and UUID, \<^verbatim>\<open>str.strip\<close>, the synthesis
  (\<^verbatim>\<open>edge_tts.Communicate(text, voice).save(output_file)\<close> run on a fresh event loop)
  and \<^verbatim>\<open>send_file\<close>. A synthesis that raises is taken to leave no file behind.
\<close>

record tts_env =
  DEFAULT_VOICE :: string
  tts_tempdir :: string
  tts_uuid_hex :: string
  str_strip :: "string \<Rightarrow> string"
  communicate_save :: "string \<Rightarrow> json \<Rightarrow> string \<Rightarrow> unit result"
  send_file :: "string \<Rightarrow> http_response result"
  tts_remove_refused :: "string \<Rightarrow> bool"

text \<open>
  The two 400 messages, \<^verbatim>\<open>\u7f3a\u5c11text\u5b57\u6bb5\<close> and
  \<^verbatim>\<open>\u6587\u672c\u4e3a\u7a7a\<close>, as UTF-8 bytes.
\<close>

definition MSG_NO_TEXT :: string where
  "MSG_NO_TEXT =
     [CHR 0xE7, CHR 0xBC, CHR 0xBA, CHR 0xE5, CHR 0xB0, CHR 0x91] @ ''text'' @
     [CHR 0xE5, CHR 0xAD, CHR 0x97, CHR 0xE6, CHR 0xAE, CHR 0xB5]"

definition MSG_EMPTY_TEXT :: string where
  "MSG_EMPTY_TEXT =
     [CHR 0xE6, CHR 0x96, CHR 0x87, CHR 0xE6, CHR 0x9C, CHR 0xAC, CHR 0xE4, CHR 0xB8, CHR 0xBA,
      CHR 0xE7, CHR 0xA9, CHR 0xBA]"

definition tts_output_file :: "tts_env \<Rightarrow> string" where
  "tts_output_file env = os_path_join (tts_tempdir env) (''tts_'' @ tts_uuid_hex env @ ''.wav'')"

text \<open>
  \<^verbatim>\<open>generate_tts(text, voice)\<close> on its event loop: the path of the synthesised file, or
  the exception. The handler calls it only after \<^verbatim>\<open>text.strip()\<close> has succeeded, so
  \<open>text\<close> is a string here.
\<close>

definition generate_tts :: "tts_env \<Rightarrow> fs \<Rightarrow> string \<Rightarrow> json \<Rightarrow> string result \<times> fs" where
  "generate_tts env files text voice =
     (let output_file = tts_output_file env in
      case communicate_save env text voice output_file of
        Inl e \<Rightarrow> (Inl e, files)
      | Inr u \<Rightarrow> (Inr output_file, insert output_file files))"

text \<open>Lines 49 to 70 of \<^verbatim>\<open>text_to_speech\<close>: synthesis and the streamed response.\<close>

definition synthesise :: "tts_env \<Rightarrow> fs \<Rightarrow> string \<Rightarrow> json \<Rightarrow> http_response result \<times> fs" where
  "synthesise env files text voice =
     (case generate_tts env files text voice of
        (Inl e, files') \<Rightarrow> (Inl e, files')
      | (Inr audio_file, files') \<Rightarrow>
          (case send_file env audio_file of
             Inl e \<Rightarrow> (Inl e, files')
           | Inr response \<Rightarrow> (Inr response, files')))"

definition text_to_speech_body ::
  "tts_env \<Rightarrow> fs \<Rightarrow> json \<Rightarrow> http_response result \<times> fs" where
  "text_to_speech_body env files data =
     (case py_contains ''text'' data of
        Inl e \<Rightarrow> (Inl e, files)
      | Inr present \<Rightarrow>
          (if \<not> present then (Inr (jsonify_status [(''error'', JStr MSG_NO_TEXT)] 400), files)
           else
             (case py_getitem data ''text'' of
                Inl e \<Rightarrow> (Inl e, files)
              | Inr text \<Rightarrow>
                  (case py_get data ''voice'' (JStr (DEFAULT_VOICE env)) of
                     Inl e \<Rightarrow> (Inl e, files)
                   | Inr voice \<Rightarrow>
                       (case text of
                          JStr s \<Rightarrow>
                            (if str_strip env s = [] then
                               (Inr (jsonify_status [(''error'', JStr MSG_EMPTY_TEXT)] 400), files)
                             else synthesise env files s voice)
                        | other \<Rightarrow>
                            (Inl (PyExc ''AttributeError''
                               (quoted (type_name other) @ '' object has no attribute '' @
                                quoted ''strip'')), files))))))"

definition text_to_speech :: "tts_env \<Rightarrow> fs \<Rightarrow> json \<Rightarrow> http_response \<times> fs" where
  "text_to_speech env files data = except_handler (text_to_speech_body env files data)"

text \<open>The \<^verbatim>\<open>cleanup\<close> closure registered with \<^verbatim>\<open>call_on_close\<close>, run when the response closes.\<close>

definition cleanup :: "tts_env \<Rightarrow> fs \<Rightarrow> string \<Rightarrow> fs" where
  "cleanup env files audio_file = remove_suppressed (tts_remove_refused env) files audio_file"

text \<open>An environment whose synthesis backend raises, for a concrete request.\<close>

definition refusing_tts_env :: tts_env where
  "refusing_tts_env =
     \<lparr>DEFAULT_VOICE = ''zh-CN-XiaoxiaoNeural'', tts_tempdir = ''/tmp'',
      tts_uuid_hex = ''0123456789abcdef0123456789abcdef'',
      str_strip = (\<lambda>s. s),
      communicate_save =
        (\<lambda>text voice path. Inl (PyExc ''NoAudioReceived'' ''No audio was received'')),
      send_file = (\<lambda>path. Inr (Http 200 (FileStream path ''audio/wav''))),
      tts_remove_refused = (\<lambda>path. False)\<rparr>"

section \<open>Properties\<close>

subsection \<open>The session dictionary and one POST /vad call\<close>

lemma map_of_dict_set: "map_of (dict_set k v ps) = (map_of ps)(k \<mapsto> v)"
  by (induction ps) auto

lemma keys_dict_set: "fst ` set (dict_set k v ps) = insert k (fst ` set ps)"
  by (induction ps) auto

lemma distinct_dict_set: "distinct (map fst ps) \<Longrightarrow> distinct (map fst (dict_set k v ps))"
  by (induction ps) (auto simp: keys_dict_set)

lemma dict_set_twice: "dict_set k v (dict_set k v' ps) = dict_set k v ps"
  by (induction ps) auto

lemma dict_set_present:
  "map_of ps k = Some v' \<Longrightarrow> map fst (dict_set k v ps) = map fst ps"
  by (induction ps) (auto split: if_splits)

lemma dict_set_same: "map_of ps k = Some v \<Longrightarrow> dict_set k v ps = ps"
  by (induction ps) (auto split: if_splits)

lemma dict_set_absent: "map_of ps k = None \<Longrightarrow> dict_set k v ps = ps @ [(k, v)]"
  by (induction ps) (auto split: if_splits)

lemma values_dict_set: "snd ` set (dict_set k v ps) \<subseteq> insert v (snd ` set ps)"
  by (induction ps) auto

lemma event_of_error: "event_of (jsonify_status [(''error'', m)] c) = None"
  by (simp add: jsonify_status_def)

lemma decode_audio_object:
  "decode_audio env d = Inr audio \<Longrightarrow> \<exists>kvs field. d = JObj kvs \<and> map_of kvs ''audio_data'' = Some field"
  by (cases d) (auto simp: decode_audio_def split: sum.splits option.splits)

lemma decode_audio_present:
  "decode_audio env d = Inr audio \<Longrightarrow> py_contains ''audio_data'' d = Inr True"
proof -
  assume "decode_audio env d = Inr audio"
  then obtain kvs field where d: "d = JObj kvs" and f: "map_of kvs ''audio_data'' = Some field"
    using decode_audio_object by blast
  from f have "(''audio_data'', field) \<in> set kvs" by (rule map_of_SomeD)
  then have "''audio_data'' \<in> fst ` set kvs" by force
  with d show ?thesis by simp
qed

lemma vad_detect_decode_failure:
  "py_contains ''audio_data'' d = Inr True \<Longrightarrow> decode_audio env d = Inl e \<Longrightarrow>
   vad_detect env w d = (jsonify_status [(''error'', JStr (str_exc e))] 500, w)"
  by (simp add: vad_detect_def vad_detect_body_def except_handler_def)

lemma vad_detect_session:
  assumes dec: "decode_audio env d = Inr audio"
    and addr: "addressed_session d = Some k"
    and call: "vad_call (vad_model env) (scorer_calls w) (session_view w k) audio = (out, it', calls)"
  shows "vad_detect env w d =
    ((case out of
        Inl e \<Rightarrow> jsonify_status [(''error'', JStr (str_exc e))] 500
      | Inr vad_output \<Rightarrow> vad_respond vad_output),
     \<lparr>vad_iterators = dict_set k it' (vad_iterators w), scorer_calls = calls\<rparr>)"
proof -
  from addr obtain sid where sid: "py_get d ''session_id'' (JStr ''default'') = Inr sid"
    and k: "py_hashable sid = Inr k"
    by (auto simp: addressed_session_def split: sum.splits)
  have body: "vad_detect_body env w d = vad_session_step env w d audio"
    using dec decode_audio_present [OF dec] by (simp add: vad_detect_body_def)
  show ?thesis
    using call
    by (auto simp: vad_detect_def body vad_session_step_def sid k get_vad_iterator_def
        session_view_def except_handler_def dict_set_twice dict_set_same Let_def
        split: option.splits sum.splits)
qed

lemma vad_detect_no_session:
  "addressed_session d = None \<Longrightarrow>
   snd (vad_detect env w d) = w \<and> event_of (fst (vad_detect env w d)) = None"
  by (auto simp: vad_detect_def vad_detect_body_def vad_session_step_def addressed_session_def
      get_vad_iterator_def except_handler_def event_of_error split: sum.splits)

lemma vad_detect_no_audio:
  "\<not> (\<exists>audio. decode_audio env d = Inr audio) \<Longrightarrow>
   snd (vad_detect env w d) = w \<and> event_of (fst (vad_detect env w d)) = None"
  by (auto simp: vad_detect_def vad_detect_body_def 
      except_handler_def event_of_error split: sum.splits)


lemma hysteresis_phase:
  "hysteresis it p n = (out, it') \<Longrightarrow>
   (event_of (vad_respond out) = Some Start \<and> phase it = SILENCE \<and> phase it' = SPEECH) \<or>
   (event_of (vad_respond out) = Some End \<and> phase it = SPEECH \<and> phase it' = SILENCE) \<or>
   (event_of (vad_respond out) = None \<and> phase it' = phase it)"
  by (cases "phase it")
    (auto simp: hysteresis_def vad_respond_def jsonify_def Let_def split: if_splits)

lemma vad_call_failure:
  "vad_call score calls it audio = (Inl e, it', calls') \<Longrightarrow> it' = it"
  by (auto simp: vad_call_def split: if_splits sum.splits prod.splits)

lemma vad_call_success:
  "vad_call score calls it audio = (Inr vo, it', calls') \<Longrightarrow>
   \<exists>p. hysteresis it p (length audio) = (vo, it')"
  by (auto simp: vad_call_def split: if_splits sum.splits prod.splits)

lemma session_view_dict_set:
  "vad_iterators w' = dict_set k' it' (vad_iterators w) \<Longrightarrow>
   session_view w' k = (if k = k' then it' else session_view w k)"
  by (simp add: session_view_def map_of_dict_set)

lemma vad_detect_alternation_step:
  assumes rest: "alternating (phase (session_view (snd (vad_detect env w d)) k)) es"
  shows "alternating (phase (session_view w k))
           (if addressed_session d = Some k then
              (case event_of (fst (vad_detect env w d)) of
                 Some e \<Rightarrow> e # es
               | None \<Rightarrow> es)
            else es)"
proof -
  let ?r = "fst (vad_detect env w d)" and ?w' = "snd (vad_detect env w d)"
  consider
      (no_audio) "\<not> (\<exists>audio. decode_audio env d = Inr audio)"
    | (no_session) "addressed_session d = None"
    | (session) audio k' where "decode_audio env d = Inr audio" "addressed_session d = Some k'"
    by (cases "addressed_session d") auto
  then show ?thesis
  proof cases
    case no_audio
    from vad_detect_no_audio [OF this, of w] rest show ?thesis by simp
  next
    case no_session
    from vad_detect_no_session [OF this, of env w] rest show ?thesis by simp
  next
    case session
    obtain out it' calls where call:
      "vad_call (vad_model env) (scorer_calls w) (session_view w k') audio = (out, it', calls)"
      by (cases "vad_call (vad_model env) (scorer_calls w) (session_view w k') audio") auto
    note step = vad_detect_session [OF session call]
    have view: "session_view ?w' k = (if k = k' then it' else session_view w k)"
      by (rule session_view_dict_set) (simp add: step)
    show ?thesis
    proof (cases "k = k'")
      case False
      with session view rest show ?thesis by simp
    next
      case True
      show ?thesis
      proof (cases out)
        case (Inl e)
        with call have "it' = session_view w k'" by (simp add: vad_call_failure)
        with Inl True session view rest step show ?thesis by (simp add: event_of_error)
      next
        case (Inr vo)
        with call obtain p where "hysteresis (session_view w k') p (length audio) = (vo, it')"
          using vad_call_success by blast
        from hysteresis_phase [OF this] Inr True session view rest step
        show ?thesis by auto
      qed
    qed
  qed
qed

lemma alternating_from_any_world:
  "alternating (phase (session_view w k)) (session_events k (vad_responses env w ds))"
proof (induction ds arbitrary: w)
  case Nil
  show ?case by simp
next
  case (Cons d ds)
  have "session_events k (vad_responses env w (d # ds)) =
          (if addressed_session d = Some k then
             (case event_of (fst (vad_detect env w d)) of
                Some e \<Rightarrow> e # session_events k (vad_responses env (snd (vad_detect env w d)) ds)
              | None \<Rightarrow> session_events k (vad_responses env (snd (vad_detect env w d)) ds))
           else session_events k (vad_responses env (snd (vad_detect env w d)) ds))"
    by simp
  then show ?case
    using vad_detect_alternation_step [OF Cons.IH [of "snd (vad_detect env w d)"]]
    by (simp only:)
qed

text \<open>
  Claim C1. Take any sequence of POST /vad calls, on any sessions and with any payloads,
  handled one after the other from the empty session table, whatever the decoder and the
  scorer answer. For every session, the start and end events among the responses to the
  calls that address it alternate strictly, and the first of them is a start.
\<close>

theorem events_alternate_start_first:
  "alternating SILENCE (session_events k (vad_responses env initial_world ds))"
  using alternating_from_any_world [of initial_world k env ds]
  by (simp add: session_view_def initial_world_def VADIterator_def)

text \<open>
  Both kinds of event do occur: two concrete runs, evaluated from the definitions.
\<close>

lemmas vad_detect_unfold =
  vad_detect_def vad_detect_body_def decode_audio_def b64_digit_def frombuffer_int16_def
  int2float_def vad_session_step_def get_vad_iterator_def vad_call_def hysteresis_def
  vad_respond_def except_handler_def jsonify_def jsonify_status_def Let_def
  VADIterator_def THRESHOLD_def SAMPLING_RATE_def MIN_SILENCE_DURATION_MS_def
  addressed_session_def two_samples_def

lemma speech_from_the_empty_table_starts:
  "vad_responses speech_env initial_world [two_samples, two_samples] =
     [(two_samples,
       Http 200 (Json (JObj [(''status'', JStr ''start''), (''timestamp'', JInt 0)]))),
      (two_samples, Http 200 (Json (JObj [(''status'', JNull)])))] \<and>
   session_events (KStr ''default'')
     (vad_responses speech_env initial_world [two_samples, two_samples]) = [Start]"
  by (simp add: vad_detect_unfold speech_env_def initial_world_def)

lemma long_silence_ends_the_utterance:
  "vad_responses quiet_env pausing_world [two_samples, two_samples] =
     [(two_samples,
       Http 200 (Json (JObj [(''status'', JStr ''end''), (''timestamp'', JInt 8002)]))),
      (two_samples, Http 200 (Json (JObj [(''status'', JNull)])))] \<and>
   session_events (KStr ''default'')
     (vad_responses quiet_env pausing_world [two_samples, two_samples]) = [End]"
  by (simp add: vad_detect_unfold quiet_env_def pausing_world_def)

text \<open>
  Claim C3. When a POST /vad call reaches the scorer and the scorer raises, the response
  is 500 with the exception's text, and every session id stands for the same state (phase,
  silence run, cursor, configuration) after the call as before it. The table itself is
  unchanged when the session existed; when the call was the first reference to the id, the
  table has gained that session in its initial state, the creation having preceded the
  scorer call.
\<close>

theorem scorer_failure_keeps_session_state:
  assumes dec: "decode_audio env data = Inr audio"
    and nonempty: "audio \<noteq> []"
    and addr: "addressed_session data = Some k"
    and fails: "vad_model env (scorer_calls w) audio = Inl e"
  shows "fst (vad_detect env w data) = Http 500 (Json (JObj [(''error'', JStr (str_exc e))])) \<and>
         (\<forall>k'. session_view (snd (vad_detect env w data)) k' = session_view w k') \<and>
         vad_iterators (snd (vad_detect env w data)) =
           (case map_of (vad_iterators w) k of
              Some it \<Rightarrow> vad_iterators w
            | None \<Rightarrow>
                vad_iterators w @
                [(k, VADIterator THRESHOLD SAMPLING_RATE MIN_SILENCE_DURATION_MS)])"
proof -
  have call: "vad_call (vad_model env) (scorer_calls w) (session_view w k) audio =
                (Inl e, session_view w k, Suc (scorer_calls w))"
    using nonempty fails by (simp add: vad_call_def)
  note step = vad_detect_session [OF dec addr call]
  have resp: "fst (vad_detect env w data) = Http 500 (Json (JObj [(''error'', JStr (str_exc e))]))"
    by (simp add: step jsonify_status_def)
  have tab: "vad_iterators (snd (vad_detect env w data)) =
               dict_set k (session_view w k) (vad_iterators w)"
    by (simp add: step)
  have view: "\<forall>k'. session_view (snd (vad_detect env w data)) k' = session_view w k'"
    using session_view_dict_set [OF tab] by simp
  have "dict_set k (session_view w k) (vad_iterators w) =
           (case map_of (vad_iterators w) k of
              Some it \<Rightarrow> vad_iterators w
            | None \<Rightarrow>
                vad_iterators w @
                [(k, VADIterator THRESHOLD SAMPLING_RATE MIN_SILENCE_DURATION_MS)])"
    by (simp add: session_view_def dict_set_same dict_set_absent split: option.splits)
  with resp view tab show ?thesis by simp
qed


lemma decode_two_samples:
  "b64decode env = base64_b64decode \<Longrightarrow>
   decode_audio env two_samples = Inr [32767 / 32768, - 1]"
  by (simp add: two_samples_def decode_audio_def b64_digit_def frombuffer_int16_def int2float_def)

theorem scorer_failure_keeps_session_state_witness:
  "decode_audio failing_env two_samples = Inr [32767 / 32768, - 1] \<and>
   addressed_session two_samples = Some (KStr ''default'') \<and>
   vad_model failing_env (scorer_calls speaking_world) [32767 / 32768, - 1] =
     Inl (PyExc ''RuntimeError'' ''model not ready'') \<and>
   fst (vad_detect failing_env speaking_world two_samples) =
     Http 500 (Json (JObj [(''error'', JStr ''model not ready'')])) \<and>
   vad_iterators (snd (vad_detect failing_env speaking_world two_samples)) =
     vad_iterators speaking_world"
proof -
  have dec: "decode_audio failing_env two_samples = Inr [32767 / 32768, - 1]"
    by (rule decode_two_samples) (simp add: failing_env_def)
  have ne: "[32767 / 32768, - 1 :: real] \<noteq> []"
    by simp
  have addr: "addressed_session two_samples = Some (KStr ''default'')"
    by (simp add: addressed_session_def two_samples_def)
  have fails: "vad_model failing_env (scorer_calls speaking_world) [32767 / 32768, - 1] =
     Inl (PyExc ''RuntimeError'' ''model not ready'')"
    by (simp add: failing_env_def)
  from scorer_failure_keeps_session_state [OF dec ne addr fails] dec addr fails
  show ?thesis by (simp add: speaking_world_def)
qed

lemma reset_states_twice: "reset_states (reset_states it) = reset_states it"
  by (simp add: reset_states_def)

lemma reset_vad_unfold:
  "reset_vad w body =
     (case py_get (if py_truthy body then body else JObj []) ''session_id'' (JStr ''default'') of
        Inl e \<Rightarrow> (jsonify_status [(''error'', JStr (str_exc e))] 500, w)
      | Inr session_id \<Rightarrow>
          (case py_hashable session_id of
             Inl e \<Rightarrow> (jsonify_status [(''error'', JStr (str_exc e))] 500, w)
           | Inr k \<Rightarrow>
               (jsonify [(''status'', JStr ''reset'')],
                (case map_of (vad_iterators w) k of
                   Some it \<Rightarrow> w\<lparr>vad_iterators := dict_set k (reset_states it) (vad_iterators w)\<rparr>
                 | None \<Rightarrow> w))))"
  by (simp add: reset_vad_def reset_vad_body_def except_handler_def Let_def
      split: sum.splits option.splits)

text \<open>
  Claim C5. For every session table and every request body, a second POST /reset with the
  same body gives the same response and leaves the same state as the first one alone. When
  the body addresses a session id with no live session, reset changes nothing and answers
  200 with status "reset".
\<close>

theorem reset_idempotent:
  "reset_vad (snd (reset_vad w body)) body = reset_vad w body \<and>
   (\<forall>k. addressed_session (if py_truthy body then body else JObj []) = Some k \<and>
        map_of (vad_iterators w) k = None \<longrightarrow>
        reset_vad w body = (Http 200 (Json (JObj [(''status'', JStr ''reset'')])), w))"
proof
  let ?data = "if py_truthy body then body else JObj []"
  show "reset_vad (snd (reset_vad w body)) body = reset_vad w body"
  proof (cases "py_get ?data ''session_id'' (JStr ''default'')")
    case (Inl e)
    then show ?thesis by (simp add: reset_vad_unfold)
  next
    case sid: (Inr session_id)
    show ?thesis
    proof (cases "py_hashable session_id")
      case (Inl e)
      with sid show ?thesis by (simp add: reset_vad_unfold)
    next
      case k: (Inr k)
      show ?thesis
      proof (cases "map_of (vad_iterators w) k")
        case None
        with sid k show ?thesis by (simp add: reset_vad_unfold)
      next
        case (Some it)
        with sid k show ?thesis
          by (simp add: reset_vad_unfold map_of_dict_set dict_set_twice reset_states_twice)
      qed
    qed
  qed
next
  show "\<forall>k. addressed_session (if py_truthy body then body else JObj []) = Some k \<and>
        map_of (vad_iterators w) k = None \<longrightarrow>
        reset_vad w body = (Http 200 (Json (JObj [(''status'', JStr ''reset'')])), w)"
    by (auto simp: reset_vad_unfold addressed_session_def jsonify_def split: sum.splits)
qed

theorem reset_idempotent_witness:
  "addressed_session (if py_truthy (JObj [(''session_id'', JStr ''s2'')])
     then JObj [(''session_id'', JStr ''s2'')] else JObj []) = Some (KStr ''s2'') \<and>
   map_of (vad_iterators speaking_world) (KStr ''s2'') = None \<and>
   reset_vad speaking_world (JObj [(''session_id'', JStr ''s2'')]) =
     (Http 200 (Json (JObj [(''status'', JStr ''reset'')])), speaking_world) \<and>
   reset_vad (snd (reset_vad speaking_world JNull)) JNull = reset_vad speaking_world JNull \<and>
   phase (session_view (snd (reset_vad speaking_world JNull)) (KStr ''default'')) = SILENCE"
proof -
  have a: "addressed_session (if py_truthy (JObj [(''session_id'', JStr ''s2'')])
     then JObj [(''session_id'', JStr ''s2'')] else JObj []) = Some (KStr ''s2'')"
    by (simp add: addressed_session_def)
  have b: "map_of (vad_iterators speaking_world) (KStr ''s2'') = None"
    by (simp add: speaking_world_def)
  have c: "phase (session_view (snd (reset_vad speaking_world JNull)) (KStr ''default'')) = SILENCE"
    by (simp add: reset_vad_def reset_vad_body_def except_handler_def speaking_world_def
        session_view_def reset_states_def)
  from reset_idempotent [of speaking_world "JObj [(''session_id'', JStr ''s2'')]"]
    reset_idempotent [of speaking_world JNull] a b c
  show ?thesis by simp
qed


subsection \<open>A payload that does not decode\<close>

text \<open>
  Claim C2 as stated (the handler answers 400) fails: the payload \<^verbatim>\<open>"QQ"\<close> is present
  and is not valid base64, the decoder raises, and the handler's catch-all clause answers
  500; the session table and the scorer are untouched.
\<close>

theorem malformed_base64_is_not_400:
  "py_contains ''audio_data'' (JObj [(''audio_data'', JStr ''QQ'')]) = Inr True \<and>
   b64decode speech_env (JStr ''QQ'') = Inl (PyExc ''binascii.Error'' ''Incorrect padding'') \<and>
   vad_detect speech_env initial_world (JObj [(''audio_data'', JStr ''QQ'')]) =
     (Http 500 (Json (JObj [(''error'', JStr ''Incorrect padding'')])), initial_world) \<and>
   status_of (fst (vad_detect speech_env initial_world (JObj [(''audio_data'', JStr ''QQ'')])))
     \<noteq> 400"
  by (simp add: vad_detect_def vad_detect_body_def decode_audio_def speech_env_def
      b64_digit_def except_handler_def jsonify_status_def)

text \<open>
  Claim C2, amended. Whenever the \<^verbatim>\<open>audio_data\<close> field is present and does not decode
  (the field access, the base64 decoder or the int16 view raises), POST /vad answers 500
  with the exception's text, and the whole state is as before: no session has been looked
  up or created and the scorer has not been invoked.
\<close>

theorem undecodable_audio_is_500:
  "py_contains ''audio_data'' data = Inr True \<Longrightarrow> decode_audio env data = Inl e \<Longrightarrow>
   vad_detect env w data = (Http 500 (Json (JObj [(''error'', JStr (str_exc e))])), w)"
  by (simp add: vad_detect_def vad_detect_body_def except_handler_def jsonify_status_def)

theorem undecodable_audio_is_500_witness:
  "py_contains ''audio_data'' (JObj [(''audio_data'', JStr ''QQ=='')]) = Inr True \<and>
   decode_audio speech_env (JObj [(''audio_data'', JStr ''QQ=='')]) =
     Inl (PyExc ''ValueError'' ''buffer size must be a multiple of element size'') \<and>
   vad_detect speech_env speaking_world (JObj [(''audio_data'', JStr ''QQ=='')]) =
     (Http 500 (Json (JObj [(''error'',
        JStr ''buffer size must be a multiple of element size'')])), speaking_world)"
proof -
  have p: "py_contains ''audio_data'' (JObj [(''audio_data'', JStr ''QQ=='')]) = Inr True"
    by simp
  have d: "decode_audio speech_env (JObj [(''audio_data'', JStr ''QQ=='')]) =
     Inl (PyExc ''ValueError'' ''buffer size must be a multiple of element size'')"
    by (simp add: decode_audio_def speech_env_def b64_digit_def frombuffer_int16_def)
  from undecodable_audio_is_500 [OF p d, of speaking_world] p d show ?thesis by simp
qed

subsection \<open>Configuration is preserved\<close>

lemma vad_call_config:
  "vad_call score calls it audio = (out, it', calls') \<Longrightarrow>
   threshold it' = threshold it \<and> sampling_rate it' = sampling_rate it \<and>
   min_silence_duration_ms it' = min_silence_duration_ms it"
  by (auto simp: vad_call_def hysteresis_def Let_def split: if_splits sum.splits prod.splits)

lemma session_view_config:
  assumes "\<forall>it \<in> snd ` set (vad_iterators w). fixed_configuration it"
  shows "fixed_configuration (session_view w k)"
proof (cases "map_of (vad_iterators w) k")
  case None
  then show ?thesis
    by (simp add: session_view_def VADIterator_def THRESHOLD_def SAMPLING_RATE_def
        MIN_SILENCE_DURATION_MS_def fixed_configuration_def)
next
  case (Some it)
  then have "(k, it) \<in> set (vad_iterators w)" by (rule map_of_SomeD)
  then have "it \<in> snd ` set (vad_iterators w)" by force
  with assms have "fixed_configuration it" by blast
  with Some show ?thesis by (simp add: session_view_def)
qed

lemma dict_set_values_config:
  assumes "\<forall>it \<in> snd ` set its. P it" and "P v"
  shows "\<forall>it \<in> snd ` set (dict_set k v its). P it"
  using assms values_dict_set [of k v its] by blast

lemma vad_detect_config:
  assumes inv: "\<forall>it \<in> snd ` set (vad_iterators w). fixed_configuration it"
  shows "\<forall>it \<in> snd ` set (vad_iterators (snd (vad_detect env w d))). fixed_configuration it"
proof -
  consider
      (no_audio) "\<not> (\<exists>audio. decode_audio env d = Inr audio)"
    | (no_session) "addressed_session d = None"
    | (session) audio k where "decode_audio env d = Inr audio" "addressed_session d = Some k"
    by (cases "addressed_session d") auto
  then show ?thesis
  proof cases
    case no_audio
    from vad_detect_no_audio [OF this, of w] have "snd (vad_detect env w d) = w" by simp
    with inv show ?thesis by (simp only:)
  next
    case no_session
    from vad_detect_no_session [OF this, of env w] have "snd (vad_detect env w d) = w" by simp
    with inv show ?thesis by (simp only:)
  next
    case session
    obtain out it' calls where call:
      "vad_call (vad_model env) (scorer_calls w) (session_view w k) audio = (out, it', calls)"
      by (cases "vad_call (vad_model env) (scorer_calls w) (session_view w k) audio") auto
    have tab: "vad_iterators (snd (vad_detect env w d)) = dict_set k it' (vad_iterators w)"
      by (simp add: vad_detect_session [OF session call])
    have "fixed_configuration it'"
      using vad_call_config [OF call] session_view_config [OF inv, of k]
      by (simp add: fixed_configuration_def)
    with inv show ?thesis
      unfolding tab by (rule dict_set_values_config)
  qed
qed

lemma reset_vad_table:
  "vad_iterators (snd (reset_vad w body)) = vad_iterators w \<or>
   (\<exists>k it. map_of (vad_iterators w) k = Some it \<and>
      vad_iterators (snd (reset_vad w body)) = dict_set k (reset_states it) (vad_iterators w))"
  by (auto simp: reset_vad_unfold split: sum.splits option.splits)

lemma reset_vad_config:
  assumes inv: "\<forall>it \<in> snd ` set (vad_iterators w). fixed_configuration it"
  shows "\<forall>it \<in> snd ` set (vad_iterators (snd (reset_vad w body))). fixed_configuration it"
  using reset_vad_table [of w body]
proof (elim disjE exE conjE)
  assume "vad_iterators (snd (reset_vad w body)) = vad_iterators w"
  with inv show ?thesis by (simp only:)
next
  fix k it
  assume m: "map_of (vad_iterators w) k = Some it"
    and tab: "vad_iterators (snd (reset_vad w body)) = dict_set k (reset_states it) (vad_iterators w)"
  from m have "(k, it) \<in> set (vad_iterators w)" by (rule map_of_SomeD)
  then have "it \<in> snd ` set (vad_iterators w)" by force
  with inv have "fixed_configuration it" by blast
  then have "fixed_configuration (reset_states it)"
    by (simp add: reset_states_def fixed_configuration_def)
  with inv show ?thesis
    unfolding tab by (rule dict_set_values_config)
qed

lemma run_requests_config:
  "\<forall>it \<in> snd ` set (vad_iterators w). fixed_configuration it \<Longrightarrow>
   \<forall>it \<in> snd ` set (vad_iterators (run_requests env w reqs)). fixed_configuration it"
proof (induction reqs arbitrary: w)
  case Nil
  then show ?case by simp
next
  case (Cons r reqs)
  have "\<forall>it \<in> snd ` set (vad_iterators (snd (handle_request env w r))). fixed_configuration it"
  proof (cases r)
    case (PostVad body)
    with vad_detect_config [OF Cons.prems] show ?thesis by simp
  next
    case (PostReset body)
    with reset_vad_config [OF Cons.prems] show ?thesis by simp
  qed
  from Cons.IH [OF this] show ?case by simp
qed

text \<open>
  Claim C9. In every state reachable from the empty table by any sequence of POST /vad
  and POST /reset requests, whatever their bodies, every session has threshold 0.5,
  sampling rate 16000 and minimum silence duration 500 ms; and the detector that
  \<open>get_vad_iterator\<close> builds for an unknown id is constructed with exactly these values.
\<close>

theorem sessions_keep_fixed_configuration:
  "(\<forall>it \<in> snd ` set (vad_iterators (run_requests env initial_world reqs)).
      threshold it = 5 / 10 \<and> sampling_rate it = 16000 \<and> min_silence_duration_ms it = 500) \<and>
   (\<forall>k. py_hashable session_id = Inr k \<and> map_of its k = None \<longrightarrow>
      get_vad_iterator session_id its =
        Inr (k, VADIterator (5 / 10) 16000 500, its @ [(k, VADIterator (5 / 10) 16000 500)]))"
proof
  have "\<forall>it \<in> snd ` set (vad_iterators initial_world). fixed_configuration it"
    by (simp add: initial_world_def)
  then have "\<forall>it \<in> snd ` set (vad_iterators (run_requests env initial_world reqs)).
      fixed_configuration it"
    by (rule run_requests_config)
  then show "\<forall>it \<in> snd ` set (vad_iterators (run_requests env initial_world reqs)).
      threshold it = 5 / 10 \<and> sampling_rate it = 16000 \<and> min_silence_duration_ms it = 500"
    unfolding fixed_configuration_def .
next
  show "\<forall>k. py_hashable session_id = Inr k \<and> map_of its k = None \<longrightarrow>
      get_vad_iterator session_id its =
        Inr (k, VADIterator (5 / 10) 16000 500, its @ [(k, VADIterator (5 / 10) 16000 500)])"
    by (simp add: get_vad_iterator_def dict_set_absent THRESHOLD_def SAMPLING_RATE_def
        MIN_SILENCE_DURATION_MS_def Let_def)
qed

theorem sessions_keep_fixed_configuration_witness:
  "vad_iterators (run_requests speech_env initial_world
     [PostVad (JObj [(''audio_data'', JStr ''/38AgA==''), (''session_id'', JStr ''s1''),
                     (''threshold'', JInt 1), (''min_silence_duration_ms'', JInt 10)]),
      PostReset (JObj [(''session_id'', JStr ''s1''), (''sampling_rate'', JInt 8000)])]) =
     [(KStr ''s1'', VADIterator (5 / 10) 16000 500)] \<and>
   VADIterator (5 / 10) 16000 500 \<in> snd ` set (vad_iterators (run_requests speech_env initial_world
     [PostVad (JObj [(''audio_data'', JStr ''/38AgA==''), (''session_id'', JStr ''s1''),
                     (''threshold'', JInt 1), (''min_silence_duration_ms'', JInt 10)]),
      PostReset (JObj [(''session_id'', JStr ''s1''), (''sampling_rate'', JInt 8000)])])) \<and>
   threshold (VADIterator (5 / 10) 16000 500) = 5 / 10 \<and>
   py_hashable (JStr ''s1'') = Inr (KStr ''s1'') \<and> 
   map_of ([] :: (skey \<times> vad_iterator) list) (KStr ''s1'') = None \<and>
   get_vad_iterator (JStr ''s1'') [] =
     Inr (KStr ''s1'', VADIterator (5 / 10) 16000 500, [(KStr ''s1'', VADIterator (5 / 10) 16000 500)])"
proof -
  let ?reqs = "[PostVad (JObj [(''audio_data'', JStr ''/38AgA==''), (''session_id'', JStr ''s1''),
                     (''threshold'', JInt 1), (''min_silence_duration_ms'', JInt 10)]),
      PostReset (JObj [(''session_id'', JStr ''s1''), (''sampling_rate'', JInt 8000)])]"
  have run: "vad_iterators (run_requests speech_env initial_world ?reqs) =
     [(KStr ''s1'', VADIterator (5 / 10) 16000 500)]"
    by (simp add: vad_detect_def vad_detect_body_def decode_audio_def speech_env_def
        b64_digit_def frombuffer_int16_def int2float_def vad_session_step_def
        get_vad_iterator_def vad_call_def hysteresis_def except_handler_def
        reset_vad_def reset_vad_body_def reset_states_def initial_world_def Let_def
        VADIterator_def THRESHOLD_def SAMPLING_RATE_def MIN_SILENCE_DURATION_MS_def)
  from sessions_keep_fixed_configuration [of speech_env ?reqs "JStr ''s1''" "[]"] run
  show ?thesis by (simp add: VADIterator_def)
qed


subsection \<open>Creation and update of sessions\<close>

lemma vad_detect_table:
  "vad_iterators (snd (vad_detect env w d)) = vad_iterators w \<or>
   (\<exists>k it'. vad_iterators (snd (vad_detect env w d)) = dict_set k it' (vad_iterators w))"
proof -
  consider
      (no_audio) "\<not> (\<exists>audio. decode_audio env d = Inr audio)"
    | (no_session) "addressed_session d = None"
    | (session) audio k where "decode_audio env d = Inr audio" "addressed_session d = Some k"
    by (cases "addressed_session d") auto
  then show ?thesis
  proof cases
    case no_audio
    from vad_detect_no_audio [OF this, of w] show ?thesis by simp
  next
    case no_session
    from vad_detect_no_session [OF this, of env w] show ?thesis by simp
  next
    case session
    obtain out it' calls where call:
      "vad_call (vad_model env) (scorer_calls w) (session_view w k) audio = (out, it', calls)"
      by (cases "vad_call (vad_model env) (scorer_calls w) (session_view w k) audio") auto
    have "vad_iterators (snd (vad_detect env w d)) = dict_set k it' (vad_iterators w)"
      by (simp add: vad_detect_session [OF session call])
    then show ?thesis by blast
  qed
qed

lemma handle_request_distinct:
  assumes "distinct (map fst (vad_iterators w))"
  shows "distinct (map fst (vad_iterators (snd (handle_request env w r))))"
proof (cases r)
  case (PostVad body)
  from vad_detect_table [of env w body] assms have
    "distinct (map fst (vad_iterators (snd (vad_detect env w body))))"
    by (auto simp: distinct_dict_set)
  with PostVad show ?thesis by simp
next
  case (PostReset body)
  from reset_vad_table [of w body] assms have
    "distinct (map fst (vad_iterators (snd (reset_vad w body))))"
    by (auto simp: distinct_dict_set)
  with PostReset show ?thesis by simp
qed

lemma run_requests_distinct:
  "distinct (map fst (vad_iterators w)) \<Longrightarrow>
   distinct (map fst (vad_iterators (run_requests env w reqs)))"
proof (induction reqs arbitrary: w)
  case Nil
  then show ?case by simp
next
  case (Cons r reqs)
  from Cons.IH [OF handle_request_distinct [OF Cons.prems]] show ?case by simp
qed

lemma reset_vad_keys:
  "map fst (vad_iterators (snd (reset_vad w body))) = map fst (vad_iterators w)"
  using reset_vad_table [of w body] by (auto simp: dict_set_present)

text \<open>
  Claim C6 as stated (a first reset call creates the Session) fails: POST /reset for the
  unknown id \<^verbatim>\<open>s1\<close> on the empty table answers 200 and the table is still empty.
\<close>

theorem first_reset_creates_no_session:
  "map_of (vad_iterators initial_world) (KStr ''s1'') = None \<and>
   reset_vad initial_world (JObj [(''session_id'', JStr ''s1'')]) =
     (Http 200 (Json (JObj [(''status'', JStr ''reset'')])), initial_world) \<and>
   vad_iterators (snd (reset_vad initial_world (JObj [(''session_id'', JStr ''s1'')]))) = []"
  by (simp add: reset_vad_unfold initial_world_def jsonify_def)

text \<open>
  Claim C6, amended. A Session is created lazily, from the module's default parameters,
  by the first POST /vad call that addresses its id with a payload that decodes: the table
  gains that id, holding the newly built detector after this one call. A POST /reset call
  never creates a Session: it leaves the ids of the table as they are. In every state
  reachable from the empty table each id has at most one Session, and a POST /vad call on an
  id that has one replaces that entry in place, the ids and their order unchanged.
\<close>

theorem session_lifecycle:
  "distinct (map fst (vad_iterators (run_requests env initial_world reqs))) \<and>
   map fst (vad_iterators (snd (reset_vad w body))) = map fst (vad_iterators w) \<and>
   (\<forall>audio k. decode_audio env data = Inr audio \<and> addressed_session data = Some k \<and>
       map_of (vad_iterators w) k = None \<longrightarrow>
       vad_iterators (snd (vad_detect env w data)) =
         vad_iterators w @
         [(k, fst (snd (vad_call (vad_model env) (scorer_calls w)
                 (VADIterator THRESHOLD SAMPLING_RATE MIN_SILENCE_DURATION_MS) audio)))]) \<and>
   (\<forall>audio k it. decode_audio env data = Inr audio \<and> addressed_session data = Some k \<and>
       map_of (vad_iterators w) k = Some it \<longrightarrow>
       vad_iterators (snd (vad_detect env w data)) =
         dict_set k (fst (snd (vad_call (vad_model env) (scorer_calls w) it audio)))
           (vad_iterators w) \<and>
       map fst (vad_iterators (snd (vad_detect env w data))) = map fst (vad_iterators w))"
proof (intro conjI allI impI)
  have "distinct (map fst (vad_iterators initial_world))"
    by (simp add: initial_world_def)
  then show "distinct (map fst (vad_iterators (run_requests env initial_world reqs)))"
    by (rule run_requests_distinct)
next
  show "map fst (vad_iterators (snd (reset_vad w body))) = map fst (vad_iterators w)"
    by (rule reset_vad_keys)
next
  fix audio k
  assume h: "decode_audio env data = Inr audio \<and> addressed_session data = Some k \<and>
       map_of (vad_iterators w) k = None"
  let ?new = "VADIterator THRESHOLD SAMPLING_RATE MIN_SILENCE_DURATION_MS"
  from h have view: "session_view w k = ?new" by (simp add: session_view_def)
  obtain out it' calls where call:
    "vad_call (vad_model env) (scorer_calls w) (session_view w k) audio = (out, it', calls)"
    by (cases "vad_call (vad_model env) (scorer_calls w) (session_view w k) audio") auto
  from h have "vad_iterators (snd (vad_detect env w data)) = dict_set k it' (vad_iterators w)"
    by (simp add: vad_detect_session [OF _ _ call])
  moreover from call view have "it' = fst (snd (vad_call (vad_model env) (scorer_calls w) ?new audio))"
    by simp
  ultimately show "vad_iterators (snd (vad_detect env w data)) =
         vad_iterators w @
         [(k, fst (snd (vad_call (vad_model env) (scorer_calls w) ?new audio)))]"
    using h by (simp add: dict_set_absent)
next
  fix audio k it
  assume h: "decode_audio env data = Inr audio \<and> addressed_session data = Some k \<and>
       map_of (vad_iterators w) k = Some it"
  from h have view: "session_view w k = it" by (simp add: session_view_def)
  obtain out it' calls where call:
    "vad_call (vad_model env) (scorer_calls w) (session_view w k) audio = (out, it', calls)"
    by (cases "vad_call (vad_model env) (scorer_calls w) (session_view w k) audio") auto
  from h have tab: "vad_iterators (snd (vad_detect env w data)) = dict_set k it' (vad_iterators w)"
    by (simp add: vad_detect_session [OF _ _ call])
  from call view have it': "it' = fst (snd (vad_call (vad_model env) (scorer_calls w) it audio))"
    by simp
  from tab it' show "vad_iterators (snd (vad_detect env w data)) =
         dict_set k (fst (snd (vad_call (vad_model env) (scorer_calls w) it audio)))
           (vad_iterators w)"
    by simp
  from tab h show "map fst (vad_iterators (snd (vad_detect env w data))) = map fst (vad_iterators w)"
    by (simp add: dict_set_present)
qed

theorem session_lifecycle_witness:
  "decode_audio speech_env two_samples = Inr [32767 / 32768, - 1] \<and>
   addressed_session two_samples = Some (KStr ''default'') \<and>
   map_of (vad_iterators initial_world) (KStr ''default'') = None \<and>
   vad_iterators (snd (vad_detect speech_env initial_world two_samples)) =
     [(KStr ''default'',
       \<lparr>threshold = 5 / 10, sampling_rate = 16000, min_silence_duration_ms = 500,
        phase = SPEECH, silence_run_length = 0, sample_cursor = 2\<rparr>)] \<and>
   distinct (map fst (vad_iterators (run_requests speech_env initial_world
     [PostVad two_samples, PostReset JNull, PostVad two_samples])))"
proof -
  have dec: "decode_audio speech_env two_samples = Inr [32767 / 32768, - 1]"
    by (rule decode_two_samples) (simp add: speech_env_def)
  have addr: "addressed_session two_samples = Some (KStr ''default'')"
    by (simp add: addressed_session_def two_samples_def)
  have absent: "map_of (vad_iterators initial_world) (KStr ''default'') = None"
    by (simp add: initial_world_def)
  from session_lifecycle [of speech_env "[PostVad two_samples, PostReset JNull, PostVad two_samples]"
      initial_world JNull two_samples] dec addr absent
  show ?thesis
    by (simp add: vad_call_def hysteresis_def speech_env_def initial_world_def VADIterator_def
        THRESHOLD_def SAMPLING_RATE_def MIN_SILENCE_DURATION_MS_def)
qed


subsection \<open>The staged file of the ASR service\<close>

lemma except_handler_raised:
  "fst r = Inl e \<Longrightarrow>
   except_handler r = (Http 500 (Json (JObj [(''error'', JStr (str_exc e))])), snd r)"
  by (simp add: except_handler_def jsonify_status_def)

lemma except_handler_returned:
  "fst r = Inr resp \<Longrightarrow> except_handler r = (resp, snd r)"
  by (simp add: except_handler_def)

lemma recognize_model_failure:
  assumes "map_of request_files ''file'' = Some file"
    and "filename file \<noteq> []"
    and "file_save env file (asr_temp_file env) = Inr ()"
    and "model_generate env (asr_temp_file env) = Inl e"
  shows "recognize env files request_files =
           (Http 500 (Json (JObj [(''error'', JStr (str_exc e))])),
            insert (asr_temp_file env) files)"
  using assms
  by (simp add: recognize_def recognize_body_def transcribe_def except_handler_def
      jsonify_status_def Let_def)

lemma recognize_success_removes:
  assumes "map_of request_files ''file'' = Some file"
    and "filename file \<noteq> []"
    and "file_save env file (asr_temp_file env) = Inr ()"
    and "model_generate env (asr_temp_file env) = Inr (first # others)"
    and "map_of first ''text'' = Some raw"
    and "rich_transcription_postprocess env raw = Inr text"
  shows "status_of (fst (recognize env files request_files)) = 200 \<and>
         snd (recognize env files request_files) =
           (if asr_remove_refused env (asr_temp_file env) then insert (asr_temp_file env) files
            else files - {asr_temp_file env})"
  using assms
  by (simp add: recognize_def recognize_body_def transcribe_def except_handler_def
      jsonify_def Let_def remove_suppressed_def os_remove_def)

text \<open>
  Claim C4 says that the staged file is deleted after the model call on the success path
  and on the model-failure path. On the success path it is (\<open>recognize_success_removes\<close>,
  a refused deletion being swallowed). On the model-failure path it is not: the upload
  \<^verbatim>\<open>a.wav\<close> is staged, \<^verbatim>\<open>model.generate\<close> raises, the handler answers 500 and the
  staged file is still there, because \<^verbatim>\<open>os.remove\<close> stands after the model call inside
  the \<^verbatim>\<open>try\<close> block and not in a \<^verbatim>\<open>finally\<close> clause.
\<close>

theorem model_failure_leaves_temp_file:
  "recognize model_failure_env {} [(''file'', wav_upload)] =
     (Http 500 (Json (JObj [(''error'', JStr ''inference failed'')])),
      {''/tmp/asr_0123456789abcdef0123456789abcdef.wav''})"
  by (simp add: recognize_def recognize_body_def transcribe_def except_handler_def
      jsonify_status_def Let_def model_failure_env_def wav_upload_def asr_temp_file_def
      os_path_join_def)

subsection \<open>The handler boundary\<close>

lemma vad_respond_status: "status_of (vad_respond vo) = 200"
  by (simp add: vad_respond_def jsonify_def split: option.splits)

lemma vad_detect_status:
  "status_of (fst (vad_detect env w data)) \<in> {200, 400, 500}"
proof -
  consider
      (no_audio) "\<not> (\<exists>audio. decode_audio env data = Inr audio)"
    | (no_session) audio where "decode_audio env data = Inr audio" "addressed_session data = None"
    | (session) audio k where "decode_audio env data = Inr audio" "addressed_session data = Some k"
    by (cases "addressed_session data") auto
  then show ?thesis
  proof cases
    case no_audio
    then show ?thesis
      by (auto simp: vad_detect_def vad_detect_body_def except_handler_def jsonify_status_def
          split: sum.splits)
  next
    case no_session
    then show ?thesis
      using decode_audio_present [OF no_session(1)]
      by (auto simp: vad_detect_def vad_detect_body_def vad_session_step_def
          addressed_session_def get_vad_iterator_def except_handler_def jsonify_status_def
          split: sum.splits)
  next
    case session
    obtain out it' calls where call:
      "vad_call (vad_model env) (scorer_calls w) (session_view w k) audio = (out, it', calls)"
      by (cases "vad_call (vad_model env) (scorer_calls w) (session_view w k) audio") auto
    show ?thesis
      by (cases out)
        (simp_all add: vad_detect_session [OF session call] jsonify_status_def
          vad_respond_status)
  qed
qed

lemma reset_vad_status:
  "status_of (fst (reset_vad w body)) \<in> {200, 500}"
  by (auto simp: reset_vad_unfold jsonify_def jsonify_status_def split: sum.splits)

lemma recognize_status:
  "status_of (fst (recognize env files request_files)) \<in> {200, 400, 500}"
proof (cases "fst (recognize_body env files request_files)")
  case (Inl e)
  then show ?thesis
    by (simp add: recognize_def except_handler_raised)
next
  case (Inr resp)
  then have "status_of resp = 200 \<or> status_of resp = 400"
    by (auto simp: recognize_body_def transcribe_def jsonify_def jsonify_status_def Let_def
        split: sum.splits if_splits option.splits list.splits)
  with Inr show ?thesis
    by (auto simp: recognize_def except_handler_returned)
qed

lemma text_to_speech_status:
  "status_of (fst (text_to_speech env files data)) \<in> {400, 500} \<or>
   (\<exists>path. send_file env path = Inr (fst (text_to_speech env files data)))"
proof (cases "fst (text_to_speech_body env files data)")
  case (Inl e)
  then show ?thesis
    by (simp add: text_to_speech_def except_handler_raised)
next
  case (Inr resp)
  then have "status_of resp = 400 \<or> (\<exists>path. send_file env path = Inr resp)"
    by (auto simp: text_to_speech_body_def synthesise_def generate_tts_def jsonify_status_def
        Let_def split: sum.splits if_splits option.splits json.splits prod.splits)
  with Inr show ?thesis
    by (auto simp: text_to_speech_def except_handler_returned)
qed

text \<open>
  Claim C8. For every request to POST /vad, /reset, /recognize and /tts, and whatever the
  collaborators outside the repository do, the handler returns an HTTP response: whenever
  anything in its body raises an exception, the response is 500 with the exception's text
  as the error, and the status of the JSON handlers is always one of 200, 400 and 500
  (for /tts: 400, 500, or the response \<^verbatim>\<open>send_file\<close> built). Exceptions are the classes
  under \<^verbatim>\<open>Exception\<close>, which is what the handlers' \<^verbatim>\<open>except\<close> clause catches.
\<close>

theorem handlers_convert_every_exception:
  "(\<forall>e. fst (vad_detect_body venv w data) = Inl e \<longrightarrow>
        fst (vad_detect venv w data) = Http 500 (Json (JObj [(''error'', JStr (str_exc e))]))) \<and>
   (\<forall>e. fst (reset_vad_body w body) = Inl e \<longrightarrow>
        fst (reset_vad w body) = Http 500 (Json (JObj [(''error'', JStr (str_exc e))]))) \<and>
   (\<forall>e. fst (recognize_body aenv files request_files) = Inl e \<longrightarrow>
        fst (recognize aenv files request_files) =
          Http 500 (Json (JObj [(''error'', JStr (str_exc e))]))) \<and>
   (\<forall>e. fst (text_to_speech_body tenv files tdata) = Inl e \<longrightarrow>
        fst (text_to_speech tenv files tdata) =
          Http 500 (Json (JObj [(''error'', JStr (str_exc e))]))) \<and>
   status_of (fst (vad_detect venv w data)) \<in> {200, 400, 500} \<and>
   status_of (fst (reset_vad w body)) \<in> {200, 500} \<and>
   status_of (fst (recognize aenv files request_files)) \<in> {200, 400, 500} \<and>
   (status_of (fst (text_to_speech tenv files tdata)) \<in> {400, 500} \<or>
    (\<exists>path. send_file tenv path = Inr (fst (text_to_speech tenv files tdata))))"
proof (intro conjI allI impI)
  fix e assume "fst (vad_detect_body venv w data) = Inl e"
  then show "fst (vad_detect venv w data) = Http 500 (Json (JObj [(''error'', JStr (str_exc e))]))"
    by (simp add: vad_detect_def except_handler_raised)
next
  fix e assume "fst (reset_vad_body w body) = Inl e"
  then show "fst (reset_vad w body) = Http 500 (Json (JObj [(''error'', JStr (str_exc e))]))"
    by (simp add: reset_vad_def except_handler_raised)
next
  fix e assume "fst (recognize_body aenv files request_files) = Inl e"
  then show "fst (recognize aenv files request_files) =
          Http 500 (Json (JObj [(''error'', JStr (str_exc e))]))"
    by (simp add: recognize_def except_handler_raised)
next
  fix e assume "fst (text_to_speech_body tenv files tdata) = Inl e"
  then show "fst (text_to_speech tenv files tdata) =
          Http 500 (Json (JObj [(''error'', JStr (str_exc e))]))"
    by (simp add: text_to_speech_def except_handler_raised)
next
  show "status_of (fst (vad_detect venv w data)) \<in> {200, 400, 500}"
    by (rule vad_detect_status)
next
  show "status_of (fst (reset_vad w body)) \<in> {200, 500}"
    by (rule reset_vad_status)
next
  show "status_of (fst (recognize aenv files request_files)) \<in> {200, 400, 500}"
    by (rule recognize_status)
next
  show "status_of (fst (text_to_speech tenv files tdata)) \<in> {400, 500} \<or>
    (\<exists>path. send_file tenv path = Inr (fst (text_to_speech tenv files tdata)))"
    by (rule text_to_speech_status)
qed

theorem handlers_convert_every_exception_witness:
  "fst (vad_detect_body failing_env speaking_world (JArr [JStr ''audio_data''])) =
     Inl (PyExc ''TypeError'' ''list indices must be integers or slices, not str'') \<and>
   fst (vad_detect failing_env speaking_world (JArr [JStr ''audio_data''])) =
     Http 500 (Json (JObj [(''error'',
       JStr ''list indices must be integers or slices, not str'')])) \<and>
   fst (reset_vad_body speaking_world (JArr [JStr ''audio_data''])) =
     Inl (PyExc ''AttributeError''
       (quoted ''list'' @ '' object has no attribute '' @ quoted ''get'')) \<and>
   fst (reset_vad speaking_world (JArr [JStr ''audio_data''])) =
     Http 500 (Json (JObj [(''error'',
       JStr (quoted ''list'' @ '' object has no attribute '' @ quoted ''get''))])) \<and>
   fst (recognize_body model_failure_env {} [(''file'', wav_upload)]) =
     Inl (PyExc ''RuntimeError'' ''inference failed'') \<and>
   fst (recognize model_failure_env {} [(''file'', wav_upload)]) =
     Http 500 (Json (JObj [(''error'', JStr ''inference failed'')])) \<and>
   fst (text_to_speech_body refusing_tts_env {} (JObj [(''text'', JStr ''hello'')])) =
     Inl (PyExc ''NoAudioReceived'' ''No audio was received'') \<and>
   fst (text_to_speech refusing_tts_env {} (JObj [(''text'', JStr ''hello'')])) =
     Http 500 (Json (JObj [(''error'', JStr ''No audio was received'')]))"
proof -
  have v: "fst (vad_detect_body failing_env speaking_world (JArr [JStr ''audio_data''])) =
     Inl (PyExc ''TypeError'' ''list indices must be integers or slices, not str'')"
    by (simp add: vad_detect_body_def decode_audio_def)
  have r: "fst (reset_vad_body speaking_world (JArr [JStr ''audio_data''])) =
     Inl (PyExc ''AttributeError''
       (quoted ''list'' @ '' object has no attribute '' @ quoted ''get''))"
    by (simp add: reset_vad_body_def)
  have a: "fst (recognize_body model_failure_env {} [(''file'', wav_upload)]) =
     Inl (PyExc ''RuntimeError'' ''inference failed'')"
    by (simp add: recognize_body_def transcribe_def model_failure_env_def wav_upload_def
        Let_def)
  have t: "fst (text_to_speech_body refusing_tts_env {} (JObj [(''text'', JStr ''hello'')])) =
     Inl (PyExc ''NoAudioReceived'' ''No audio was received'')"
    by (simp add: text_to_speech_body_def synthesise_def generate_tts_def refusing_tts_env_def
        Let_def)
  from handlers_convert_every_exception
    [of failing_env speaking_world "JArr [JStr ''audio_data'']" "JArr [JStr ''audio_data'']"
       model_failure_env "{}" "[(''file'', wav_upload)]" refusing_tts_env
       "JObj [(''text'', JStr ''hello'')]"] v r a t
  show ?thesis by simp
qed


subsection \<open>Normalisation of the samples\<close>

lemma int2float_nth:
  "i < length sound \<Longrightarrow> int2float sound ! i = real_of_int (sint (sound ! i)) / 32768"
  by (simp add: int2float_def)

lemma sint16_bounds: "- 32768 \<le> sint (s :: 16 word) \<and> sint s < 32768"
  using sint_ge [of s] sint_lt [of s] by simp

text \<open>
  Claim C7. For every array of 16-bit signed samples, \<open>int2float\<close> keeps the length and
  divides each sample by the fixed divisor 32768, so each output lies in the half-open
  range from -1 (included) to 1 (excluded); -32768 maps to -1 and 32767 maps to
  32767/32768, which is below 1.
\<close>

theorem int2float_fixed_divisor_range:
  "length (int2float sound) = length sound \<and>
   (\<forall>i < length sound.
      int2float sound ! i = real_of_int (sint (sound ! i)) / 32768 \<and>
      - 1 \<le> int2float sound ! i \<and> int2float sound ! i < 1) \<and>
   int2float [- 32768] = [- 1] \<and>
   int2float [32767] = [32767 / 32768] \<and> (32767 / 32768 :: real) < 1"
proof -
  have len: "length (int2float sound) = length sound"
    by (simp add: int2float_def)
  have rng: "\<forall>i < length sound.
      int2float sound ! i = real_of_int (sint (sound ! i)) / 32768 \<and>
      - 1 \<le> int2float sound ! i \<and> int2float sound ! i < 1"
  proof (intro allI impI)
    fix i assume i: "i < length sound"
    define n where "n = sint (sound ! i)"
    have b: "- 32768 \<le> n \<and> n < 32768"
      unfolding n_def by (rule sint16_bounds)
    have e: "int2float sound ! i = real_of_int n / 32768"
      unfolding n_def using i by (rule int2float_nth)
    from b have l: "- 1 \<le> real_of_int n / 32768"
      by simp
    from b have u: "real_of_int n / 32768 < 1"
      by simp
    from e l u have "int2float sound ! i = real_of_int n / 32768 \<and>
      - 1 \<le> int2float sound ! i \<and> int2float sound ! i < 1"
      by simp
    then show "int2float sound ! i = real_of_int (sint (sound ! i)) / 32768 \<and>
      - 1 \<le> int2float sound ! i \<and> int2float sound ! i < 1"
      unfolding n_def .
  qed
  have lo: "int2float [- 32768] = [- 1]"
    by (simp add: int2float_def)
  have hi: "int2float [32767] = [32767 / 32768]"
    by (simp add: int2float_def)
  show ?thesis using len rng lo hi by simp
qed

theorem int2float_fixed_divisor_range_witness:
  "(2::nat) < length [- 32768, 0, 32767 :: 16 word] \<and>
   int2float [- 32768, 0, 32767] ! 2 = 32767 / 32768 \<and>
   int2float [- 32768, 0, 32767] ! 2 < 1"
  using int2float_fixed_divisor_range [of "[- 32768, 0, 32767]"] by simp

subsection \<open>A body that is not a JSON object\<close>

lemma post_vad_value: "post_vad env w (Inr data) = vad_detect env w data"
  by (simp add: post_vad_def vad_detect_def)

lemma post_reset_value: "post_reset w (Inr body) = reset_vad w body"
  by (simp add: post_reset_def reset_vad_def)

text \<open>
  Claim C10 as stated (POST /reset answers 200 on an absent body as it does on the JSON
  value null) fails: for a request without a body \<^verbatim>\<open>get_json\<close> raises inside the
  \<^verbatim>\<open>try\<close> block, before \<^verbatim>\<open>or {}\<close> is reached, and POST /reset answers 500.
\<close>

theorem reset_absent_body_is_500:
  "flask_get_json NoBody = Inl (PyExc ''UnsupportedMediaType'' MSG_NOT_JSON) \<and>
   post_reset initial_world (flask_get_json NoBody) =
     (Http 500 (Json (JObj [(''error'', JStr MSG_NOT_JSON)])), initial_world) \<and>
   status_of (fst (post_reset initial_world (flask_get_json NoBody))) \<noteq> 200"
  by (simp add: post_reset_def except_handler_def jsonify_status_def)

text \<open>
  Claim C10, amended. When \<^verbatim>\<open>request.get_json()\<close> returns \<^verbatim>\<open>None\<close> (the JSON value
  null), POST /vad answers 500 with an error body, not 400: the membership test for
  \<^verbatim>\<open>audio_data\<close> raises a TypeError before the 400 branch, and the session table and the
  scorer are untouched; POST /reset on the same body answers 200 with status "reset". When
  \<^verbatim>\<open>get_json\<close> itself raises, as it does on an absent body, both handlers answer 500
  with the exception's text and leave the state as it was.
\<close>

theorem null_body_and_refused_body:
  "flask_get_json (JsonBody JNull) = Inr JNull \<and>
   post_vad env w (Inr JNull) =
     (Http 500 (Json (JObj [(''error'',
        JStr (''argument of type '' @ quoted ''NoneType'' @ '' is not iterable''))])), w) \<and>
   status_of (fst (post_vad env w (Inr JNull))) \<noteq> 400 \<and>
   fst (post_reset w (Inr JNull)) = Http 200 (Json (JObj [(''status'', JStr ''reset'')])) \<and>
   post_vad env w (Inl e) = (Http 500 (Json (JObj [(''error'', JStr (str_exc e))])), w) \<and>
   post_reset w (Inl e) = (Http 500 (Json (JObj [(''error'', JStr (str_exc e))])), w)"
  by (simp add: post_vad_def post_reset_def vad_detect_body_def reset_vad_body_def
      except_handler_def jsonify_def jsonify_status_def split: option.splits)


end
